theory Spec2Isabelle
  imports Main
begin

section \<open>JavaScript values used by the configuration helpers\<close>

text \<open>
  A JavaScript string is modelled as a \<^typ>\<open>string\<close>: a list of code units, here limited
  to the range 0..255 (Latin-1).  A value of type \<^verbatim>\<open>string | undefined\<close> is a
  \<^typ>\<open>string option\<close>, and \<^verbatim>\<open>process.env\<close> is a partial map from names to strings.
\<close>

type_synonym env = "string \<rightharpoonup> string"

text \<open>The white space and line terminators that \<^verbatim>\<open>String.prototype.trim\<close> and
  \<^verbatim>\<open>parseInt\<close> skip, as far as they lie in the modelled range: TAB, LF, VT, FF, CR,
  SPACE and NO-BREAK SPACE.\<close>

definition is_js_space :: "char \<Rightarrow> bool" where
  "is_js_space c \<longleftrightarrow>
     c \<in> set [CHR 0x09, CHR 0x0A, CHR 0x0B, CHR 0x0C, CHR 0x0D, CHR 0x20, CHR 0xA0]"

definition trim :: "string \<Rightarrow> string" where
  "trim s = rev (dropWhile is_js_space (rev (dropWhile is_js_space s)))"

text \<open>\<^verbatim>\<open>toLowerCase\<close> on the modelled range: A..Z and the Latin-1 capitals
  (0xC0..0xDE without the multiplication sign 0xD7) move up by 32.\<close>

definition lower_char :: "char \<Rightarrow> char" where
  "lower_char c =
     (let n = (of_char c :: nat) in
      if (65 \<le> n \<and> n \<le> 90) \<or> (192 \<le> n \<and> n \<le> 222 \<and> n \<noteq> 215)
      then char_of (n + 32) else c)"

definition toLowerCase :: "string \<Rightarrow> string" where
  "toLowerCase s = map lower_char s"

text \<open>A condition on a \<^verbatim>\<open>string | undefined\<close>, as in \<^verbatim>\<open>!value\<close> or
  \<^verbatim>\<open>value ? a : b\<close>, is false for \<^verbatim>\<open>undefined\<close> and for the empty string; the
  functions below test the two cases one after the other.\<close>

definition startsWith_slash :: "string \<Rightarrow> bool" where
  "startsWith_slash s \<longleftrightarrow> (case s of [] \<Rightarrow> False | c # _ \<Rightarrow> c = CHR ''/'')"

definition endsWith_slash :: "string \<Rightarrow> bool" where
  "endsWith_slash s \<longleftrightarrow> s \<noteq> [] \<and> last s = CHR ''/''"

text \<open>\<^verbatim>\<open>value.split(",")\<close>: the fields between the commas; the empty string has the one
  field \<^verbatim>\<open>""\<close>.\<close>

fun split_comma :: "string \<Rightarrow> string list" where
  "split_comma [] = [[]]"
| "split_comma (c # cs) =
     (if c = CHR '','' then [] # split_comma cs
      else (case split_comma cs of
              [] \<Rightarrow> [[c]]
            | f # fs \<Rightarrow> (c # f) # fs))"

text \<open>A JavaScript number as far as \<^verbatim>\<open>parseInt\<close> produces one: \<^verbatim>\<open>NaN\<close>, a
  double whose value is an integer, or an infinity.  \<^verbatim>\<open>-0\<close> is \<open>Num 0\<close>: the two
  compare alike.\<close>

datatype js_number = NaN | Num int | PosInfinity | NegInfinity

text \<open>The number of binary digits of a natural number.\<close>

fun bit_length :: "nat \<Rightarrow> nat" where
  "bit_length n = (if n = 0 then 0 else Suc (bit_length (n div 2)))"

declare bit_length.simps [simp del]

text \<open>The double nearest to a natural number: the number itself below \<open>2 ^ 53\<close>; above, the
  53 leading binary digits, rounded to nearest with ties to the even one, followed by
  zeros; nothing (the value becomes \<^verbatim>\<open>Infinity\<close>) when that reaches \<open>2 ^ 1024\<close>.\<close>

definition nearest_double :: "nat \<Rightarrow> nat option" where
  "nearest_double n =
     (if n < 2 ^ 53 then Some n
      else (let e = bit_length n - 53;
                q = n div 2 ^ e;
                r = n mod 2 ^ e;
                q' = (if 2 ^ e < 2 * r \<or> (2 * r = 2 ^ e \<and> odd q) then q + 1 else q);
                v = q' * 2 ^ e
            in if 2 ^ 1024 \<le> v then None else Some v))"

definition is_digit :: "char \<Rightarrow> bool" where
  "is_digit c \<longleftrightarrow> 48 \<le> (of_char c :: nat) \<and> (of_char c :: nat) \<le> 57"

definition digit_val :: "char \<Rightarrow> nat" where
  "digit_val c = of_char c - 48"

definition digits_value :: "string \<Rightarrow> nat" where
  "digits_value ds = foldl (\<lambda>acc c. 10 * acc + digit_val c) 0 ds"

text \<open>\<^verbatim>\<open>Number.parseInt(s, 10)\<close>: skip leading white space, read one optional sign, then
  the longest run of decimal digits; no digit gives \<^verbatim>\<open>NaN\<close>, and whatever follows the
  digits is ignored.  The result is the double nearest to the signed value of the
  digits.\<close>

definition strip_sign :: "string \<Rightarrow> bool \<times> string" where
  "strip_sign t =
     (case t of
        [] \<Rightarrow> (False, [])
      | c # cs \<Rightarrow>
          if c = CHR ''-'' then (True, cs)
          else if c = CHR ''+'' then (False, cs)
          else (False, t))"

definition parseInt10 :: "string \<Rightarrow> js_number" where
  "parseInt10 s =
     (let (neg, r) = strip_sign (dropWhile is_js_space s);
          ds = takeWhile is_digit r
      in if ds = [] then NaN
         else (case nearest_double (digits_value ds) of
                 None \<Rightarrow> if neg then NegInfinity else PosInfinity
               | Some v \<Rightarrow> Num ((if neg then - 1 else 1) * int v)))"

section \<open>config/environment.ts\<close>

record HttpServerConfig =
  port :: js_number
  host :: string
  basePath :: string
  sessionStateful :: bool
  allowedHosts :: "string list option"
  allowedOrigins :: "string list option"

datatype LogLevel = Debug | Info | Warn | Error

definition DEFAULT_HTTP_PORT :: int where
  "DEFAULT_HTTP_PORT = 8080"

definition DEFAULT_HTTP_HOST :: string where
  "DEFAULT_HTTP_HOST = ''0.0.0.0''"

definition DEFAULT_HTTP_BASE_PATH :: string where
  "DEFAULT_HTTP_BASE_PATH = ''/mcp''"

definition DEFAULT_LOG_LEVEL :: LogLevel where
  "DEFAULT_LOG_LEVEL = Info"

definition parseCsv :: "string option \<Rightarrow> string list option" where
  "parseCsv v =
     (case v of
        None \<Rightarrow> None
      | Some s \<Rightarrow>
          if s = [] then None
          else (let entries = filter (\<lambda>e. e \<noteq> []) (map trim (split_comma s))
                in if length entries > 0 then Some entries else None))"

definition normalizeHttpBasePath :: "string option \<Rightarrow> string" where
  "normalizeHttpBasePath pathValue =
     (case pathValue of
        None \<Rightarrow> DEFAULT_HTTP_BASE_PATH
      | Some p \<Rightarrow>
          if p = [] then DEFAULT_HTTP_BASE_PATH
          else (let trimmed = trim p in
                if trimmed = [] then DEFAULT_HTTP_BASE_PATH
                else (let withLeadingSlash =
                            (if startsWith_slash trimmed then trimmed else CHR ''/'' # trimmed)
                      in if length withLeadingSlash = 1 then ''/''
                         else if endsWith_slash withLeadingSlash then butlast withLeadingSlash
                         else withLeadingSlash)))"

text \<open>\<^verbatim>\<open>process.env.MCP_HTTP_PORT ?? process.env.PORT\<close>: the second variable is read only
  when the first is undefined (an empty first value is kept).\<close>

definition rawPort :: "env \<Rightarrow> string option" where
  "rawPort e = (case e ''MCP_HTTP_PORT'' of Some v \<Rightarrow> Some v | None \<Rightarrow> e ''PORT'')"

definition parsedPort :: "env \<Rightarrow> js_number" where
  "parsedPort e =
     (case rawPort e of
        None \<Rightarrow> Num DEFAULT_HTTP_PORT
      | Some r \<Rightarrow> if r = [] then Num DEFAULT_HTTP_PORT else parseInt10 r)"

definition getHttpServerConfig :: "env \<Rightarrow> HttpServerConfig" where
  "getHttpServerConfig e =
     \<lparr> port = (case parsedPort e of
                 NaN \<Rightarrow> Num DEFAULT_HTTP_PORT
               | Num n \<Rightarrow> if n \<le> 0 then Num DEFAULT_HTTP_PORT else Num n
               | PosInfinity \<Rightarrow> PosInfinity
               | NegInfinity \<Rightarrow> Num DEFAULT_HTTP_PORT),
       host = (case e ''MCP_HTTP_HOST'' of
                 None \<Rightarrow> DEFAULT_HTTP_HOST
               | Some h \<Rightarrow> if trim h = [] then DEFAULT_HTTP_HOST else trim h),
       basePath = normalizeHttpBasePath (e ''MCP_HTTP_PATH''),
       sessionStateful = (case e ''MCP_HTTP_SESSION_STATEFUL'' of
                            None \<Rightarrow> True
                          | Some v \<Rightarrow> if v = [] then True else toLowerCase v \<noteq> ''false''),
       allowedHosts = parseCsv (e ''MCP_HTTP_ALLOWED_HOSTS''),
       allowedOrigins = parseCsv (e ''MCP_HTTP_ALLOWED_ORIGINS'') \<rparr>"

definition normalizeLogLevel :: "string option \<Rightarrow> LogLevel" where
  "normalizeLogLevel level =
     (case level of
        None \<Rightarrow> DEFAULT_LOG_LEVEL
      | Some l \<Rightarrow>
          if l = [] then DEFAULT_LOG_LEVEL
          else (let normalized = toLowerCase l in
                if normalized = ''debug'' then Debug
                else if normalized = ''info'' then Info
                else if normalized = ''warn'' then Warn
                else if normalized = ''error'' then Error
                else DEFAULT_LOG_LEVEL))"

definition getLogLevel :: "env \<Rightarrow> LogLevel" where
  "getLogLevel e = normalizeLogLevel (e ''LOG_LEVEL'')"

section \<open>http.ts: resolving the start options\<close>

datatype session_mode = Stateful | Stateless

text \<open>\<^verbatim>\<open>StartHttpServerOptions\<close>; every field is optional.  The port is resolved with
  \<^verbatim>\<open>Number(...)\<close> and is not modelled further, no property below depends on it.\<close>

record StartHttpServerOptions =
  opt_port :: "int option"
  opt_host :: "string option"
  opt_sessionMode :: "session_mode option"
  opt_handleSignals :: "bool option"

definition parseCsvEnv :: "string option \<Rightarrow> string list option" where
  "parseCsvEnv v =
     (case v of
        None \<Rightarrow> None
      | Some s \<Rightarrow>
          if s = [] then None
          else (let entries = filter (\<lambda>e. e \<noteq> []) (map trim (split_comma s))
                in if length entries > 0 then Some entries else None))"

text \<open>\<^verbatim>\<open>options.host ?? process.env.MCP_HTTP_HOST ?? "0.0.0.0"\<close>\<close>

definition resolve_host :: "StartHttpServerOptions \<Rightarrow> env \<Rightarrow> string" where
  "resolve_host options e =
     (case opt_host options of
        Some h \<Rightarrow> h
      | None \<Rightarrow> (case e ''MCP_HTTP_HOST'' of Some h \<Rightarrow> h | None \<Rightarrow> ''0.0.0.0''))"

text \<open>\<^verbatim>\<open>options.sessionMode ?? (process.env.MCP_HTTP_SESSION_MODE?.toLowerCase() ===
  "stateless" ? "stateless" : "stateful")\<close>\<close>

definition resolve_sessionMode :: "StartHttpServerOptions \<Rightarrow> env \<Rightarrow> session_mode" where
  "resolve_sessionMode options e =
     (case opt_sessionMode options of
        Some m \<Rightarrow> m
      | None \<Rightarrow>
          (case e ''MCP_HTTP_SESSION_MODE'' of
             None \<Rightarrow> Stateful
           | Some v \<Rightarrow> if toLowerCase v = ''stateless'' then Stateless else Stateful))"


text \<open>The options handed to \<^verbatim>\<open>new StreamableHTTPServerTransport\<close>.  The session
  identifier generator is \<^verbatim>\<open>undefined\<close> or \<^verbatim>\<open>() => randomUUID()\<close>; the model
  records which.\<close>

record TransportOptions =
  has_sessionIdGenerator :: bool
  enableJsonResponse :: bool
  transport_allowedHosts :: "string list option"
  transport_allowedOrigins :: "string list option"
  enableDnsRebindingProtection :: bool

text \<open>\<^verbatim>\<open>list?.length\<close> read as a condition: false for \<^verbatim>\<open>undefined\<close> and for length
  0.\<close>

definition truthy_length :: "string list option \<Rightarrow> bool" where
  "truthy_length l \<longleftrightarrow> (case l of None \<Rightarrow> False | Some xs \<Rightarrow> length xs \<noteq> 0)"

definition transportOptions :: "StartHttpServerOptions \<Rightarrow> env \<Rightarrow> TransportOptions" where
  "transportOptions options e =
     (let sessionMode = resolve_sessionMode options e;
          hosts = parseCsvEnv (e ''MCP_HTTP_ALLOWED_HOSTS'');
          origins = parseCsvEnv (e ''MCP_HTTP_ALLOWED_ORIGINS'')
      in \<lparr> has_sessionIdGenerator = (sessionMode \<noteq> Stateless),
           enableJsonResponse = True,
           transport_allowedHosts = hosts,
           transport_allowedOrigins = origins,
           enableDnsRebindingProtection = (truthy_length hosts \<or> truthy_length origins) \<rparr>)"

section \<open>Promises, thrown values and observable events\<close>

text \<open>A thrown JavaScript value, named by its message or error code.\<close>

datatype thrown = Thrown string

text \<open>How an awaited promise ends, with the state of the world it leaves: it resolves, it
  rejects with a thrown value, or it never settles.\<close>

datatype 'w outcome = Resolved 'w | Rejected thrown 'w | Pending 'w

text \<open>The signals of \<^verbatim>\<open>NodeJS.Signals\<close>: the two the server registers for, and any
  other by name.\<close>

datatype signal = SIGINT | SIGTERM | OtherSignal string

fun signal_name :: "signal \<Rightarrow> string" where
  "signal_name SIGINT = ''SIGINT''"
| "signal_name SIGTERM = ''SIGTERM''"
| "signal_name (OtherSignal n) = n"

text \<open>The three awaited steps of \<^verbatim>\<open>shutdown\<close>, and what an observer of the process
  sees: a line on \<^verbatim>\<open>console.error\<close> (its fixed text; interpolated values other than the
  signal name and the error object are left out), the call that begins a step, the
  completion of the awaited step, and \<^verbatim>\<open>process.exit(code)\<close>.\<close>

datatype step = CloseListener | CloseTransport | CloseMcpServer

datatype event = Console string | Begin step | Done step | Exit nat

section \<open>http.ts: the request listener\<close>

text \<open>Node's \<^verbatim>\<open>http.ServerResponse\<close> as far as the listener touches it.  A response
  is fresh, has sent its headers, or has ended; \<^verbatim>\<open>res.headersSent\<close> holds from the
  second phase on.\<close>

datatype res_phase = Fresh | HeadersSent | Ended

record ServerResponse =
  phase :: res_phase
  statusCode :: nat
  res_headers :: "(string \<times> string) list"
  res_body :: string

definition headersSent :: "ServerResponse \<Rightarrow> bool" where
  "headersSent res \<longleftrightarrow> phase res \<noteq> Fresh"

definition writableEnded :: "ServerResponse \<Rightarrow> bool" where
  "writableEnded res \<longleftrightarrow> phase res = Ended"

text \<open>\<^verbatim>\<open>res.writeHead(status, headers)\<close> throws once the headers are sent.\<close>

definition writeHead ::
  "nat \<Rightarrow> (string \<times> string) list \<Rightarrow> ServerResponse \<Rightarrow> thrown + ServerResponse" where
  "writeHead status hs res =
     (if headersSent res then Inl (Thrown ''ERR_HTTP_HEADERS_SENT'')
      else Inr (res\<lparr>phase := HeadersSent, statusCode := status,
                     res_headers := res_headers res @ hs\<rparr>))"

text \<open>\<^verbatim>\<open>res.end(chunk)\<close> and \<^verbatim>\<open>res.end()\<close>: on a response that has ended nothing is
  written and nothing is thrown.\<close>

definition end_chunk :: "string \<Rightarrow> ServerResponse \<Rightarrow> ServerResponse" where
  "end_chunk chunk res =
     (if writableEnded res then res
      else res\<lparr>phase := Ended, res_body := res_body res @ chunk\<rparr>)"

definition end_plain :: "ServerResponse \<Rightarrow> ServerResponse" where
  "end_plain res = (if writableEnded res then res else res\<lparr>phase := Ended\<rparr>)"

text \<open>JSON values and \<^verbatim>\<open>JSON.stringify\<close> for them.  Strings escape the quote and the
  backslash; control characters do not occur in the values built here.\<close>

datatype json = JNull | JNumber int | JString string | JObject "(string \<times> json) list"

definition digit_char :: "nat \<Rightarrow> char" where
  "digit_char n = ''0123456789'' ! n"

fun show_nat :: "nat \<Rightarrow> string" where
  "show_nat n = (if n < 10 then [digit_char n] else show_nat (n div 10) @ [digit_char (n mod 10)])"

definition show_int :: "int \<Rightarrow> string" where
  "show_int i = (if i < 0 then CHR ''-'' # show_nat (nat (- i)) else show_nat (nat i))"

definition escape_char :: "char \<Rightarrow> string" where
  "escape_char c =
     (if c = CHR 0x22 then [CHR 0x5C, CHR 0x22]
      else if c = CHR 0x5C then [CHR 0x5C, CHR 0x5C]
      else [c])"

definition quote :: "string \<Rightarrow> string" where
  "quote s = CHR 0x22 # concat (map escape_char s) @ [CHR 0x22]"

fun JSON_stringify :: "json \<Rightarrow> string"
  and stringify_members :: "(string \<times> json) list \<Rightarrow> string" where
  "JSON_stringify JNull = ''null''"
| "JSON_stringify (JNumber n) = show_int n"
| "JSON_stringify (JString s) = quote s"
| "JSON_stringify (JObject kvs) = ''{'' @ stringify_members kvs @ ''}''"
| "stringify_members [] = []"
| "stringify_members ((k, v) # kvs) =
     quote k @ '':'' @ JSON_stringify v @ (if kvs = [] then [] else '','' @ stringify_members kvs)"

definition internal_error_envelope :: json where
  "internal_error_envelope =
     JObject [(''jsonrpc'', JString ''2.0''),
              (''error'', JObject [(''code'', JNumber (- 32000)),
                                   (''message'', JString ''Internal server error'')]),
              (''id'', JNull)]"

text \<open>The listener passed to \<^verbatim>\<open>createServer\<close>.  \<^verbatim>\<open>transport.handleRequest\<close> belongs to
  the protocol library and is a parameter: given the request and the response it
  resolves, rejects or stays pending, and leaves the response as it last wrote it.  The
  result is the listener's own promise together with what it printed.\<close>

definition requestListener ::
  "('req \<Rightarrow> ServerResponse \<Rightarrow> ServerResponse outcome) \<Rightarrow> 'req \<Rightarrow> ServerResponse
     \<Rightarrow> event list \<times> ServerResponse outcome" where
  "requestListener handleRequest req res =
     (case handleRequest req res of
        Resolved res' \<Rightarrow> ([], Resolved res')
      | Pending res' \<Rightarrow> ([], Pending res')
      | Rejected err res' \<Rightarrow>
          (if \<not> headersSent res' then
             (case writeHead 500 [(''Content-Type'', ''application/json'')] res' of
                Inl e \<Rightarrow> ([Console ''Failed to handle HTTP request:''], Rejected e res')
              | Inr res'' \<Rightarrow>
                  ([Console ''Failed to handle HTTP request:''],
                   Resolved (end_chunk (JSON_stringify internal_error_envelope) res'')))
           else ([Console ''Failed to handle HTTP request:''], Resolved (end_plain res'))))"

section \<open>http.ts: shutdown, signal handlers and the command-line entry\<close>

text \<open>What \<^verbatim>\<open>httpServer.close(callback)\<close> can do: throw at once, call the callback
  (with an error when the server was not open, else without), or never call it while
  connections stay open.\<close>

datatype 'w close_result = Throws thrown 'w | CallsBack "thrown option" 'w | NeverCallsBack 'w

text \<open>\<^verbatim>\<open>new Promise((resolve) => httpServer.close(() => resolve()))\<close>: the callback
  ignores its argument, so the promise resolves whenever the callback runs.\<close>

fun close_promise :: "'w close_result \<Rightarrow> 'w outcome" where
  "close_promise (Throws e w) = Rejected e w"
| "close_promise (CallsBack _ w) = Resolved w"
| "close_promise (NeverCallsBack w) = Pending w"

text \<open>The objects \<^verbatim>\<open>startHttpServer\<close> creates and drives belong to Node and to the
  protocol library; their operations are parameters acting on a state \<open>'w\<close>.\<close>

record 'w runtime =
  createMocoServer :: "'w \<Rightarrow> thrown + 'w"
  mcpServer_connect :: "TransportOptions \<Rightarrow> 'w \<Rightarrow> 'w outcome"
  httpServer_listen :: "'w \<Rightarrow> 'w outcome"
  httpServer_close :: "'w \<Rightarrow> 'w close_result"
  transport_close :: "'w \<Rightarrow> 'w outcome"
  mcpServer_close :: "'w \<Rightarrow> 'w outcome"

text \<open>\<^verbatim>\<open>await\<close> of one step after what ran so far: the step begins only when everything
  before it has resolved, and it is done when its promise resolves.\<close>

fun await_step ::
  "event list \<times> 'w outcome \<Rightarrow> step \<Rightarrow> ('w \<Rightarrow> 'w outcome) \<Rightarrow> event list \<times> 'w outcome" where
  "await_step (tr, Resolved w) st f =
     (case f w of
        Resolved w' \<Rightarrow> (tr @ [Begin st, Done st], Resolved w')
      | Rejected e w' \<Rightarrow> (tr @ [Begin st], Rejected e w')
      | Pending w' \<Rightarrow> (tr @ [Begin st], Pending w'))"
| "await_step (tr, Rejected e w) st f = (tr, Rejected e w)"
| "await_step (tr, Pending w) st f = (tr, Pending w)"

definition received_line :: "signal option \<Rightarrow> event list" where
  "received_line sig =
     (case sig of
        None \<Rightarrow> []
      | Some s \<Rightarrow> [Console (''Received '' @ signal_name s @ '', stopping HTTP MCP server...'')])"

definition shutdown :: "('w, 'z) runtime_scheme \<Rightarrow> signal option \<Rightarrow> 'w \<Rightarrow> event list \<times> 'w outcome" where
  "shutdown rt sig w =
     await_step
       (await_step
          (await_step (received_line sig, Resolved w)
             CloseListener (\<lambda>w. close_promise (httpServer_close rt w)))
          CloseTransport (transport_close rt))
       CloseMcpServer (mcpServer_close rt)"






text \<open>A started server: the state of its collaborators and the signal listeners it
  registered.\<close>

record 'w controls =
  world :: 'w
  listeners :: "signal list"



definition default_options :: StartHttpServerOptions where
  "default_options =
     \<lparr>opt_port = None, opt_host = None, opt_sessionMode = None, opt_handleSignals = None\<rparr>"





section \<open>The process and its signals\<close>

text \<open>A process that runs a started server: besides the server's state and its signal
  listeners, whether it still runs, what it has printed and done so far, and the signals
  whose listener has run.  A process ends by \<^verbatim>\<open>process.exit(code)\<close> or is ended by a
  signal.\<close>

datatype process_status = Running | Exited nat | KilledBy signal

record 'w process = "'w controls" +
  status :: process_status
  events :: "event list"
  handled :: "signal list"






section \<open>The collaborators behind the transport, from the specification\<close>

text \<open>
  Modelled from the spec: the listening socket, the session registry with its request gate
  (the protocol library's streamable HTTP transport) and the protocol router are not part
  of the sources; the server only constructs them and calls them.  Their state and
  operations below follow sections 3, 4.2, 4.3, 4.4 and 6 of the specification.
\<close>

text \<open>Modelled from the spec: the state shared by the collaborators.  \<open>sessions\<close> maps
  each open session identifier to its negotiated protocol version, \<open>issued\<close> counts the
  identifiers handed out, \<open>initialized\<close> records that an \<^verbatim>\<open>initialize\<close> call has
  been admitted, \<open>push_streams\<close> counts the push streams that GET requests have opened and
  that are still open, each on a connection of its own, and \<open>draining\<close> records that the
  registry has been closed.\<close>

record server_state =
  listening :: bool
  mode :: session_mode
  initialized :: bool
  sessions :: "(string \<times> string) list"
  issued :: nat
  push_streams :: nat
  draining :: bool
  router_attached :: bool

text \<open>Modelled from the spec: the methods the endpoint accepts (section 6).\<close>

datatype http_method = GET | POST

text \<open>Modelled from the spec: the parts of a request the gate reads (section 6): the
  \<^verbatim>\<open>Accept\<close>, \<^verbatim>\<open>Content-Type\<close>, \<^verbatim>\<open>Mcp-Session-Id\<close> and
  \<^verbatim>\<open>Mcp-Protocol-Version\<close> headers, and of the message its method and, for
  \<^verbatim>\<open>initialize\<close>, the protocol version it asks for.\<close>

record request =
  http_method :: http_method
  accept :: "string option"
  content_type :: "string option"
  session_header :: "string option"
  version_header :: "string option"
  rpc_method :: string
  requested_version :: string

text \<open>Modelled from the spec: the gate's failures.  Section 6 gives the text of the
  first four; for the other three the specification says only that the request is
  rejected, and their texts here are descriptive.\<close>

datatype rejection =
    NotAcceptable
  | ServerNotInitialized
  | SessionIdRequired
  | SessionNotFound
  | UnsupportedContentType
  | VersionMismatch
  | RegistryDraining

text \<open>Modelled from the spec: the plain-text reason of each failure (section 6).\<close>

fun reason_text :: "rejection \<Rightarrow> string" where
  "reason_text NotAcceptable = ''Not Acceptable''"
| "reason_text ServerNotInitialized = ''Server not initialized''"
| "reason_text SessionIdRequired = ''Mcp-Session-Id header is required''"
| "reason_text SessionNotFound = ''Session not found''"
| "reason_text UnsupportedContentType = ''Unsupported content type''"
| "reason_text VersionMismatch = ''Protocol version mismatch''"
| "reason_text RegistryDraining = ''Registry is draining''"

text \<open>Modelled from the spec: the status of a rejection where scenario D or the HTTP test
  suite fixes it (406, and 400 for the two session failures the tests provoke).\<close>

fun status_code :: "rejection \<Rightarrow> nat option" where
  "status_code NotAcceptable = Some 406"
| "status_code ServerNotInitialized = Some 400"
| "status_code SessionIdRequired = Some 400"
| "status_code _ = None"

text \<open>Modelled from the spec: what the gate does with a request: it rejects it, or it
  forwards the message to the protocol router, with the new session identifier for the
  response headers when the call was an \<^verbatim>\<open>initialize\<close>.\<close>

datatype decision = Reject rejection | Forward "string option"

text \<open>\<^verbatim>\<open>String.prototype.includes\<close>\<close>

fun str_includes :: "string \<Rightarrow> string \<Rightarrow> bool" where
  "str_includes [] sub \<longleftrightarrow> sub = []"
| "str_includes (c # cs) sub \<longleftrightarrow> take (length sub) (c # cs) = sub \<or> str_includes cs sub"

text \<open>Modelled from the spec: the \<^verbatim>\<open>Accept\<close> header advertises a media type, and
  the \<^verbatim>\<open>Content-Type\<close> header is the structured-message type.\<close>

definition accepts :: "request \<Rightarrow> string \<Rightarrow> bool" where
  "accepts r media \<longleftrightarrow> (case accept r of None \<Rightarrow> False | Some a \<Rightarrow> str_includes a media)"

text \<open>Modelled from the spec: step 1 of the gate.  A POST must accept both the
  structured-response and the event-stream media type, a GET the event stream.\<close>

definition content_negotiated :: "request \<Rightarrow> bool" where
  "content_negotiated r \<longleftrightarrow>
     (case http_method r of
        POST \<Rightarrow> accepts r ''application/json'' \<and> accepts r ''text/event-stream''
      | GET \<Rightarrow> accepts r ''text/event-stream'')"

text \<open>Modelled from the spec: step 3 asks a POST for the structured-message content
  type.\<close>

definition structured_content :: "request \<Rightarrow> bool" where
  "structured_content r \<longleftrightarrow>
     (case content_type r of None \<Rightarrow> False | Some c \<Rightarrow> str_includes c ''application/json'')"

text \<open>Modelled from the spec: \<open>lookup\<close> of section 4.2.\<close>

definition lookup :: "server_state \<Rightarrow> string \<Rightarrow> string option" where
  "lookup w sid = map_of (sessions w) sid"

text \<open>Modelled from the spec: the session checks of steps 2 and 3 for a request that is
  not an \<^verbatim>\<open>initialize\<close> call.  Stateless mode enforces no session correlation
  (section 9).  In stateful mode a missing identifier is \<open>Server not initialized\<close> for a GET
  before any initialization and \<open>Mcp-Session-Id header is required\<close> otherwise; an
  identifier with no open session is \<open>Session not found\<close>.\<close>

definition validate_session :: "server_state \<Rightarrow> request \<Rightarrow> rejection option" where
  "validate_session w r =
     (if mode w = Stateless then None
      else (case session_header r of
              None \<Rightarrow>
                if http_method r = GET \<and> \<not> initialized w then Some ServerNotInitialized
                else Some SessionIdRequired
            | Some sid \<Rightarrow>
                (case lookup w sid of None \<Rightarrow> Some SessionNotFound | Some v \<Rightarrow> None)))"

text \<open>Modelled from the spec: step 4.  A protocol-version header, if present, must match
  the negotiated version of the request's session.\<close>

definition validate_version :: "server_state \<Rightarrow> request \<Rightarrow> rejection option" where
  "validate_version w r =
     (case session_header r of
        None \<Rightarrow> None
      | Some sid \<Rightarrow>
          (case lookup w sid of
             None \<Rightarrow> None
           | Some negotiated \<Rightarrow>
               (case version_header r of
                  None \<Rightarrow> None
                | Some v \<Rightarrow> if v = negotiated then None else Some VersionMismatch)))"

text \<open>Modelled from the spec: \<open>createSession\<close> of section 4.2, callable in stateful mode
  and refused once the registry drains.  The identifier generator (\<^verbatim>\<open>randomUUID\<close> in
  the server) and the router's version negotiation are parameters.\<close>

record gate_params =
  sessionIdGenerator :: "nat \<Rightarrow> string"
  negotiate :: "string \<Rightarrow> string"

text \<open>Modelled from the spec: a new session gets a fresh identifier and the negotiated
  version, and is open from then on.\<close>

definition createSession ::
  "gate_params \<Rightarrow> string \<Rightarrow> server_state \<Rightarrow> (string \<times> server_state) option" where
  "createSession gp version w =
     (if mode w = Stateless \<or> draining w then None
      else (let sid = sessionIdGenerator gp (issued w)
            in Some (sid, w\<lparr>sessions := (sid, negotiate gp version) # sessions w,
                             issued := Suc (issued w),
                             initialized := True\<rparr>)))"

text \<open>Modelled from the spec: the request gate of section 4.3, its steps in their order.
  The result is the decision (a rejection, or the message forwarded to the protocol
  router with the session identifier to attach to the response) and the registry after
  the request.  An admitted GET establishes a push stream (section 6).\<close>

definition gate :: "gate_params \<Rightarrow> server_state \<Rightarrow> request \<Rightarrow> decision \<times> server_state" where
  "gate gp w r =
     (if \<not> content_negotiated r then (Reject NotAcceptable, w)
      else if http_method r = POST \<and> \<not> structured_content r then (Reject UnsupportedContentType, w)
      else if http_method r = POST \<and> rpc_method r = ''initialize'' then
        (if mode w = Stateless then (Forward None, w\<lparr>initialized := True\<rparr>)
         else (case createSession gp (requested_version r) w of
                 None \<Rightarrow> (Reject RegistryDraining, w)
               | Some (sid, w') \<Rightarrow> (Forward (Some sid), w')))
      else (case validate_session w r of
              Some rej \<Rightarrow> (Reject rej, w)
            | None \<Rightarrow>
                (case validate_version w r of
                   Some rej \<Rightarrow> (Reject rej, w)
                 | None \<Rightarrow>
                     (Forward None,
                      if http_method r = GET then w\<lparr>push_streams := Suc (push_streams w)\<rparr>
                      else w))))"

text \<open>Modelled from the spec: the three close operations the server awaits in
  \<^verbatim>\<open>shutdown\<close> (sections 4.4 and 5).  Closing the listening socket stops accepting at
  once, and its callback waits for the full drain of the socket: it runs when no
  connection is left open, so it does not run while a push stream is open.  Closing a
  socket that is not listening reports \<^verbatim>\<open>ERR_SERVER_NOT_RUNNING\<close> to the callback.
  \<open>closeAll\<close> puts the registry into its draining state and closes every open session
  with its stream, and is a no-op on a closed registry.  Releasing the router detaches
  it.\<close>

definition spec_httpServer_close :: "server_state \<Rightarrow> server_state close_result" where
  "spec_httpServer_close w =
     (if push_streams w = 0 then
        CallsBack (if listening w then None else Some (Thrown ''ERR_SERVER_NOT_RUNNING''))
          (w\<lparr>listening := False\<rparr>)
      else NeverCallsBack (w\<lparr>listening := False\<rparr>))"

text \<open>Modelled from the spec: \<open>closeAll\<close> of section 4.2.\<close>

definition spec_transport_close :: "server_state \<Rightarrow> server_state outcome" where
  "spec_transport_close w =
     Resolved (w\<lparr>draining := True, sessions := [], push_streams := 0\<rparr>)"

text \<open>Modelled from the spec: step (d) of the teardown, the release of the router.\<close>

definition spec_mcpServer_close :: "server_state \<Rightarrow> server_state outcome" where
  "spec_mcpServer_close w = Resolved (w\<lparr>router_attached := False\<rparr>)"

text \<open>Modelled from the spec: start-up (section 4.4) attaches the router and binds the
  socket; binding fails when the port is unavailable, which here is a socket that is
  already listening.\<close>

definition spec_runtime :: "server_state runtime" where
  "spec_runtime =
     \<lparr> createMocoServer = (\<lambda>w. Inr w),
       mcpServer_connect =
         (\<lambda>topts w. Resolved (w\<lparr>router_attached := True,
                                  mode := (if has_sessionIdGenerator topts then Stateful
                                           else Stateless)\<rparr>)),
       httpServer_listen =
         (\<lambda>w. if listening w then Rejected (Thrown ''EADDRINUSE'') w
               else Resolved (w\<lparr>listening := True\<rparr>)),
       httpServer_close = spec_httpServer_close,
       transport_close = spec_transport_close,
       mcpServer_close = spec_mcpServer_close \<rparr>"

text \<open>Modelled from the spec: the state before anything was started.\<close>

definition fresh_state :: server_state where
  "fresh_state =
     \<lparr> listening = False, mode = Stateful, initialized = False, sessions = [], issued = 0,
       push_streams = 0, draining = False, router_attached = False \<rparr>"

section \<open>Readings of the specification's words\<close>

text \<open>The entries of a comma-separated allow-list as the specification words them: split
  on commas, trim each entry, discard the empty ones.\<close>

definition csv_entries :: "string \<Rightarrow> string list" where
  "csv_entries s = filter (\<lambda>e. e \<noteq> []) (map trim (split_comma s))"

text \<open>The fields of a split, joined with commas again.\<close>

fun join_comma :: "string list \<Rightarrow> string" where
  "join_comma [] = []"
| "join_comma [f] = f"
| "join_comma (f # g # fs) = f @ CHR '','' # join_comma (g # fs)"

text \<open>A port value \<^verbatim>\<open>parseInt\<close> can read: after leading white space and one
  optional sign it starts with a decimal digit.\<close>

definition has_leading_integer :: "string \<Rightarrow> bool" where
  "has_leading_integer s \<longleftrightarrow>
     (case snd (strip_sign (dropWhile is_js_space s)) of [] \<Rightarrow> False | c # _ \<Rightarrow> is_digit c)"

text \<open>The sign and the digits \<^verbatim>\<open>parseInt\<close> reads from such a value.\<close>

definition leading_negative :: "string \<Rightarrow> bool" where
  "leading_negative s = fst (strip_sign (dropWhile is_js_space s))"

definition leading_digits :: "string \<Rightarrow> string" where
  "leading_digits s = takeWhile is_digit (snd (strip_sign (dropWhile is_js_space s)))"

text \<open>A numeric string in the strict sense: a non-empty run of decimal digits.\<close>

definition numeric :: "string \<Rightarrow> bool" where
  "numeric s \<longleftrightarrow> s \<noteq> [] \<and> list_all is_digit s"

text \<open>A path with a single leading slash: it starts with a slash and the next character,
  if any, is not one.\<close>

definition single_leading_slash :: "string \<Rightarrow> bool" where
  "single_leading_slash s \<longleftrightarrow>
     (case s of [] \<Rightarrow> False | c # rest \<Rightarrow> c = CHR ''/'' \<and> \<not> startsWith_slash rest)"

text \<open>The end state the specification names for a shutdown: the socket not listening, the
  registry drained with every session and stream closed, the router released.\<close>

definition closed_state :: "server_state \<Rightarrow> server_state" where
  "closed_state w =
     w\<lparr> listening := False, draining := True, sessions := [], push_streams := 0,
        router_attached := False \<rparr>"

text \<open>The order of the teardown as the specification gives it: the listening socket is
  closed and awaited, then the session registry, then the protocol router.\<close>

definition teardown_order :: "event list" where
  "teardown_order =
     [Begin CloseListener, Done CloseListener,
      Begin CloseTransport, Done CloseTransport,
      Begin CloseMcpServer, Done CloseMcpServer]"

section \<open>Example inputs\<close>

text \<open>The requests of the HTTP test suite: the \<^verbatim>\<open>initialize\<close> call and a
  \<^verbatim>\<open>tools/list\<close> call, both with the two accepted media types and no session
  header.\<close>

definition example_params :: gate_params where
  "example_params = \<lparr> sessionIdGenerator = (\<lambda>n. ''session-'' @ show_nat n), negotiate = (\<lambda>v. v) \<rparr>"

definition initialize_request :: request where
  "initialize_request =
     \<lparr> http_method = POST,
       accept = Some ''application/json, text/event-stream'',
       content_type = Some ''application/json'',
       session_header = None,
       version_header = None,
       rpc_method = ''initialize'',
       requested_version = ''2025-06-18'' \<rparr>"

definition tools_list_request :: request where
  "tools_list_request =
     \<lparr> http_method = POST,
       accept = Some ''application/json, text/event-stream'',
       content_type = Some ''application/json'',
       session_header = None,
       version_header = Some ''2025-06-18'',
       rpc_method = ''tools/list'',
       requested_version = [] \<rparr>"

text \<open>A GET that asks for the push stream of the first session.\<close>

definition stream_request :: request where
  "stream_request =
     \<lparr> http_method = GET,
       accept = Some ''text/event-stream'',
       content_type = None,
       session_header = Some ''session-0'',
       version_header = Some ''2025-06-18'',
       rpc_method = [],
       requested_version = [] \<rparr>"

text \<open>The registry after the \<^verbatim>\<open>initialize\<close> call on a fresh stateful server.\<close>

definition initialized_state :: server_state where
  "initialized_state =
     fresh_state\<lparr> initialized := True, sessions := [(''session-0'', ''2025-06-18'')], issued := 1 \<rparr>"

text \<open>A started stateful server with one open session, and the same server while that
  session's push stream is open.\<close>

definition serving_state :: server_state where
  "serving_state = initialized_state\<lparr> listening := True, router_attached := True \<rparr>"

definition streaming_state :: server_state where
  "streaming_state = serving_state\<lparr> push_streams := 1 \<rparr>"


definition fresh_response :: ServerResponse where
  "fresh_response = \<lparr> phase = Fresh, statusCode = 200, res_headers = [], res_body = [] \<rparr>"

section \<open>Properties of the string helpers\<close>

lemma last_dropWhile_keep: "dropWhile P zs \<noteq> [] \<Longrightarrow> last (dropWhile P zs) = last zs"
proof -
  assume ne: "dropWhile P zs \<noteq> []"
  have "last zs = last (takeWhile P zs @ dropWhile P zs)" by simp
  also have "\<dots> = last (dropWhile P zs)" by (rule last_appendR[OF ne])
  finally show ?thesis by simp
qed

lemma trim_last: "trim s \<noteq> [] \<Longrightarrow> \<not> is_js_space (last (trim s))"
proof -
  assume ne: "trim s \<noteq> []"
  define ys where "ys = dropWhile is_js_space (rev (dropWhile is_js_space s))"
  have t: "trim s = rev ys" by (simp add: trim_def ys_def)
  with ne have "ys \<noteq> []" by simp
  then have "\<not> is_js_space (hd ys)" unfolding ys_def by (rule hd_dropWhile)
  moreover have "last (rev ys) = hd ys" using \<open>ys \<noteq> []\<close> by (simp add: last_rev)
  ultimately show ?thesis using t by simp
qed

lemma trim_hd: "trim s \<noteq> [] \<Longrightarrow> \<not> is_js_space (hd (trim s))"
proof -
  assume ne: "trim s \<noteq> []"
  define a where "a = dropWhile is_js_space s"
  define ys where "ys = dropWhile is_js_space (rev a)"
  have t: "trim s = rev ys" by (simp add: trim_def ys_def a_def)
  with ne have ys: "ys \<noteq> []" by simp
  then have a: "a \<noteq> []" unfolding ys_def by auto
  have "hd (rev ys) = last ys" using ys by (simp add: hd_rev)
  also have "\<dots> = last (rev a)" using ys unfolding ys_def by (rule last_dropWhile_keep)
  also have "\<dots> = hd a" using a by (simp add: last_rev)
  finally have "hd (trim s) = hd a" using t by simp
  moreover have "\<not> is_js_space (hd a)" using a unfolding a_def by (rule hd_dropWhile)
  ultimately show ?thesis by simp
qed

lemma dropWhile_keep: "xs \<noteq> [] \<Longrightarrow> \<not> P (hd xs) \<Longrightarrow> dropWhile P xs = xs"
  by (cases xs) auto

lemma trim_fixed: "s = [] \<or> (\<not> is_js_space (hd s) \<and> \<not> is_js_space (last s)) \<Longrightarrow> trim s = s"
proof (cases "s = []")
  case True then show ?thesis by (simp add: trim_def)
next
  case False
  assume "s = [] \<or> (\<not> is_js_space (hd s) \<and> \<not> is_js_space (last s))"
  with False have h: "\<not> is_js_space (hd s)" and l: "\<not> is_js_space (last s)" by auto
  have 1: "dropWhile is_js_space s = s" using False h by (rule dropWhile_keep)
  have r: "rev s \<noteq> []" using False by simp
  have "hd (rev s) = last s" using False by (simp add: hd_rev)
  with l have "\<not> is_js_space (hd (rev s))" by simp
  with r have 2: "dropWhile is_js_space (rev s) = rev s" by (rule dropWhile_keep)
  show ?thesis by (simp add: trim_def 1 2)
qed

lemma trim_idem: "trim (trim s) = trim s"
  using trim_fixed[of "trim s"] trim_hd[of s] trim_last[of s] by blast


lemma split_comma_nonempty: "split_comma s \<noteq> []"
  by (induction s) (auto split: list.splits)

lemma join_split_comma: "join_comma (split_comma s) = s"
proof (induction s)
  case Nil show ?case by simp
next
  case (Cons c cs)
  obtain f fs where sp: "split_comma cs = f # fs"
    using split_comma_nonempty[of cs] by (cases "split_comma cs") auto
  show ?case using Cons sp by (cases fs) auto
qed

lemma split_comma_no_comma: "f \<in> set (split_comma s) \<Longrightarrow> CHR '','' \<notin> set f"
  by (induction s arbitrary: f) (auto split: if_splits list.splits)

lemma set_trim: "set (trim s) \<subseteq> set s"
  unfolding trim_def
  by (metis dual_order.trans set_dropWhileD set_rev subsetI)

lemma parseInt10_NaN_iff: "parseInt10 s = NaN \<longleftrightarrow> \<not> has_leading_integer s"
  by (auto simp: parseInt10_def has_leading_integer_def Let_def takeWhile_eq_Nil_iff
      split: prod.splits list.splits option.splits)

lemma leading_digits_Nil_iff: "leading_digits s = [] \<longleftrightarrow> \<not> has_leading_integer s"
  by (auto simp: leading_digits_def has_leading_integer_def takeWhile_eq_Nil_iff
      split: list.splits)

lemma parseInt10_reads:
  "has_leading_integer s \<Longrightarrow>
     parseInt10 s =
       (case nearest_double (digits_value (leading_digits s)) of
          None \<Rightarrow> if leading_negative s then NegInfinity else PosInfinity
        | Some v \<Rightarrow> Num ((if leading_negative s then - 1 else 1) * int v))"
  using leading_digits_Nil_iff[of s]
  by (simp add: parseInt10_def leading_digits_def leading_negative_def Let_def split_beta)

lemma bit_length_le: "n \<noteq> 0 \<Longrightarrow> 2 ^ (bit_length n - 1) \<le> n"
proof (induction n rule: bit_length.induct)
  case (1 n)
  have unfold: "bit_length n = Suc (bit_length (n div 2))"
    using "1.prems" bit_length.simps[of n] by simp
  show ?case
  proof (cases "n div 2 = 0")
    case True
    then have "bit_length (n div 2) = 0" using bit_length.simps[of "n div 2"] by simp
    then show ?thesis using unfold "1.prems" by simp
  next
    case False
    with "1.IH" "1.prems" have ih: "2 ^ (bit_length (n div 2) - 1) \<le> n div 2" by simp
    have pos: "0 < bit_length (n div 2)"
      using False bit_length.simps[of "n div 2"] by simp
    have "2 ^ (bit_length n - 1) = (2::nat) ^ bit_length (n div 2)"
      using unfold by simp
    also have "\<dots> = 2 * 2 ^ (bit_length (n div 2) - 1)"
      using pos by (cases "bit_length (n div 2)") simp_all
    also have "\<dots> \<le> 2 * (n div 2)" using ih by simp
    also have "\<dots> \<le> n" by simp
    finally show ?thesis .
  qed
qed

lemma nearest_double_small: "n < 2 ^ 53 \<Longrightarrow> nearest_double n = Some n"
  by (simp add: nearest_double_def)

lemma nearest_double_pos:
  assumes "0 < n" and "nearest_double n = Some d"
  shows "0 < d"
proof (cases "n < 2 ^ 53")
  case True
  with assms show ?thesis by (simp add: nearest_double_def)
next
  case False
  define e where "e = bit_length n - 53"
  have "(2::nat) ^ e \<le> 2 ^ (bit_length n - 1)"
    unfolding e_def by (rule power_increasing) simp_all
  also have "\<dots> \<le> n" using assms(1) by (intro bit_length_le) simp
  finally have "0 < n div 2 ^ e" by (simp add: div_greater_zero_iff)
  then show ?thesis
    using assms(2) False
    by (auto simp: nearest_double_def Let_def e_def split: if_splits)
qed

section \<open>Properties of the configuration resolver\<close>

lemma csv_entry_shape:
  assumes "x \<in> set (csv_entries s)"
  shows "x \<noteq> [] \<and> trim x = x \<and> CHR '','' \<notin> set x"
proof -
  from assms obtain f where f: "f \<in> set (split_comma s)" and x: "x = trim f" and ne: "x \<noteq> []"
    by (auto simp: csv_entries_def)
  have "CHR '','' \<notin> set f" using f by (rule split_comma_no_comma)
  then have "CHR '','' \<notin> set x" using set_trim[of f] x by auto
  moreover have "trim x = x" using x by (simp add: trim_idem)
  ultimately show ?thesis using ne by simp
qed

lemma parseCsv_entries:
  "parseCsv (Some s) = (if csv_entries s = [] then None else Some (csv_entries s))"
  by (simp add: parseCsv_def csv_entries_def trim_def)

lemma parseCsvEnv_eq: "parseCsvEnv v = parseCsv v"
  by (simp add: parseCsvEnv_def parseCsv_def)

text \<open>
  Claim C9.  Parsing an allow-list value splits it on commas, trims every entry and discards
  the empty ones: the result is the list \<open>csv_entries\<close>, whose entries are non-empty,
  trimmed and free of commas, and the fields of the split joined by commas give the value
  back.  An absent value, an empty value and a value whose entries are all blank give
  \<^verbatim>\<open>undefined\<close>; a parsed list is never empty.  The helper of \<^verbatim>\<open>http.ts\<close> is the
  one of \<^verbatim>\<open>environment.ts\<close>.  Both the configuration and the transport options take
  their two allow-lists from \<^verbatim>\<open>MCP_HTTP_ALLOWED_HOSTS\<close> and
  \<^verbatim>\<open>MCP_HTTP_ALLOWED_ORIGINS\<close>, and DNS rebinding protection is enabled exactly when
  one of the two parsed allow-lists is a non-empty list, that is, when one of the two
  variables has an entry that is not blank.
\<close>

theorem parseCsv_allow_lists:
  "parseCsv None = None \<and> parseCsv (Some []) = None \<and>
   parseCsv (Some s) = (if csv_entries s = [] then None else Some (csv_entries s)) \<and>
   parseCsvEnv v = parseCsv v \<and>
   join_comma (split_comma s) = s \<and>
   (\<forall>x \<in> set (csv_entries s). x \<noteq> [] \<and> trim x = x \<and> CHR '','' \<notin> set x) \<and>
   parseCsv v \<noteq> Some [] \<and>
   (enableDnsRebindingProtection (transportOptions options e) \<longleftrightarrow>
      (\<exists>h hs. transport_allowedHosts (transportOptions options e) = Some (h # hs)) \<or>
      (\<exists>h hs. transport_allowedOrigins (transportOptions options e) = Some (h # hs))) \<and>
   transport_allowedHosts (transportOptions options e) =
     parseCsvEnv (e ''MCP_HTTP_ALLOWED_HOSTS'') \<and>
   transport_allowedOrigins (transportOptions options e) =
     parseCsvEnv (e ''MCP_HTTP_ALLOWED_ORIGINS'') \<and>
   allowedHosts (getHttpServerConfig e) = parseCsv (e ''MCP_HTTP_ALLOWED_HOSTS'') \<and>
   allowedOrigins (getHttpServerConfig e) = parseCsv (e ''MCP_HTTP_ALLOWED_ORIGINS'') \<and>
   (enableDnsRebindingProtection (transportOptions options e) \<longleftrightarrow>
      (\<exists>hosts. e ''MCP_HTTP_ALLOWED_HOSTS'' = Some hosts \<and> csv_entries hosts \<noteq> []) \<or>
      (\<exists>origins. e ''MCP_HTTP_ALLOWED_ORIGINS'' = Some origins \<and> csv_entries origins \<noteq> []))"
proof -
  have 1: "parseCsv None = None" "parseCsv (Some []) = None"
    by (simp_all add: parseCsv_def)
  have 2: "parseCsv w \<noteq> Some []" for w
    by (auto simp: parseCsv_def Let_def split: option.splits)
  have 3: "\<forall>x \<in> set (csv_entries s). x \<noteq> [] \<and> trim x = x \<and> CHR '','' \<notin> set x"
    using csv_entry_shape by blast
  have 4: "truthy_length (parseCsvEnv w) \<longleftrightarrow> (\<exists>h hs. parseCsvEnv w = Some (h # hs))" for w
    using 2[of w] by (cases "parseCsv w") (auto simp: parseCsvEnv_eq truthy_length_def neq_Nil_conv)
  have 5: "enableDnsRebindingProtection (transportOptions options e) \<longleftrightarrow>
      (\<exists>h hs. transport_allowedHosts (transportOptions options e) = Some (h # hs)) \<or>
      (\<exists>h hs. transport_allowedOrigins (transportOptions options e) = Some (h # hs))"
    by (simp add: transportOptions_def Let_def 4)
  have 6: "transport_allowedHosts (transportOptions options e) =
        parseCsvEnv (e ''MCP_HTTP_ALLOWED_HOSTS'')"
    "transport_allowedOrigins (transportOptions options e) =
        parseCsvEnv (e ''MCP_HTTP_ALLOWED_ORIGINS'')"
    by (simp_all add: transportOptions_def Let_def)
  have 7: "allowedHosts (getHttpServerConfig e) = parseCsv (e ''MCP_HTTP_ALLOWED_HOSTS'')"
    "allowedOrigins (getHttpServerConfig e) = parseCsv (e ''MCP_HTTP_ALLOWED_ORIGINS'')"
    by (simp_all add: getHttpServerConfig_def)
  have 8: "(\<exists>h hs. parseCsvEnv w = Some (h # hs)) \<longleftrightarrow> (\<exists>t. w = Some t \<and> csv_entries t \<noteq> [])" for w
  proof (cases w)
    case None
    then show ?thesis by (simp add: parseCsvEnv_eq 1)
  next
    case (Some t)
    then show ?thesis
      by (cases "csv_entries t") (simp_all add: parseCsvEnv_eq parseCsv_entries)
  qed
  have 9: "enableDnsRebindingProtection (transportOptions options e) \<longleftrightarrow>
      (\<exists>hosts. e ''MCP_HTTP_ALLOWED_HOSTS'' = Some hosts \<and> csv_entries hosts \<noteq> []) \<or>
      (\<exists>origins. e ''MCP_HTTP_ALLOWED_ORIGINS'' = Some origins \<and> csv_entries origins \<noteq> [])"
    using 5 6 8[of "e ''MCP_HTTP_ALLOWED_HOSTS''"] 8[of "e ''MCP_HTTP_ALLOWED_ORIGINS''"] by simp
  have a: "parseCsv None = None \<and> parseCsv (Some []) = None \<and>
   parseCsv (Some s) = (if csv_entries s = [] then None else Some (csv_entries s)) \<and>
   parseCsvEnv v = parseCsv v \<and>
   join_comma (split_comma s) = s"
    using 1 parseCsv_entries[of s] parseCsvEnv_eq[of v] join_split_comma[of s] by simp
  show ?thesis
    using a 2[of v] 3 5 6 7 9 by blast
qed

text \<open>The allow-list theorem at concrete values: a hosts list, an origins list alone, a
  blank hosts value and no variable at all.\<close>

theorem parseCsv_allow_lists_witness:
  "parseCsv (Some '' a.example, ,b.example,,'') = Some [''a.example'', ''b.example''] \<and>
   parseCsv (Some '' , ,'') = None \<and>
   enableDnsRebindingProtection
     (transportOptions default_options [''MCP_HTTP_ALLOWED_HOSTS'' \<mapsto> ''localhost, 127.0.0.1'']) \<and>
   enableDnsRebindingProtection
     (transportOptions default_options [''MCP_HTTP_ALLOWED_ORIGINS'' \<mapsto> ''https://a.example'']) \<and>
   transport_allowedOrigins
     (transportOptions default_options [''MCP_HTTP_ALLOWED_ORIGINS'' \<mapsto> ''https://a.example'']) =
       Some [''https://a.example''] \<and>
   \<not> enableDnsRebindingProtection
     (transportOptions default_options [''MCP_HTTP_ALLOWED_HOSTS'' \<mapsto> '' , '']) \<and>
   \<not> enableDnsRebindingProtection (transportOptions default_options Map.empty)"
proof -
  let ?e1 = "[''MCP_HTTP_ALLOWED_HOSTS'' \<mapsto> ''localhost, 127.0.0.1'']"
  let ?e2 = "[''MCP_HTTP_ALLOWED_HOSTS'' \<mapsto> '' , '']"
  let ?e3 = "[''MCP_HTTP_ALLOWED_ORIGINS'' \<mapsto> ''https://a.example'']"
  have a: "csv_entries '' a.example, ,b.example,,'' = [''a.example'', ''b.example'']"
    by code_simp
  have b: "csv_entries '' , ,'' = []"
    by code_simp
  have c: "csv_entries ''localhost, 127.0.0.1'' = [''localhost'', ''127.0.0.1'']"
    by code_simp
  have d: "csv_entries '' , '' = []"
    by code_simp
  have f: "csv_entries ''https://a.example'' = [''https://a.example'']"
    by code_simp
  note t1 = parseCsv_allow_lists[where s = "'' a.example, ,b.example,,''" and v = None
      and options = default_options and e = ?e1]
  note t2 = parseCsv_allow_lists[where s = "'' , ,''" and v = None
      and options = default_options and e = ?e2]
  note t3 = parseCsv_allow_lists[where s = "''https://a.example''"
      and v = "Some ''https://a.example''" and options = default_options and e = ?e3]
  note t4 = parseCsv_allow_lists[where s = "[]" and v = None
      and options = default_options and e = Map.empty]
  have 1: "parseCsv (Some '' a.example, ,b.example,,'') = Some [''a.example'', ''b.example'']"
  proof -
    have "parseCsv (Some '' a.example, ,b.example,,'') =
        (if csv_entries '' a.example, ,b.example,,'' = [] then None
         else Some (csv_entries '' a.example, ,b.example,,''))"
      using t1 by blast
    then show ?thesis by (simp add: a)
  qed
  have 2: "parseCsv (Some '' , ,'') = None"
  proof -
    have "parseCsv (Some '' , ,'') =
        (if csv_entries '' , ,'' = [] then None else Some (csv_entries '' , ,''))"
      using t2 by blast
    then show ?thesis by (simp add: b)
  qed
  have p1: "enableDnsRebindingProtection (transportOptions default_options ?e1) \<longleftrightarrow>
      (\<exists>hosts. ?e1 ''MCP_HTTP_ALLOWED_HOSTS'' = Some hosts \<and> csv_entries hosts \<noteq> []) \<or>
      (\<exists>origins. ?e1 ''MCP_HTTP_ALLOWED_ORIGINS'' = Some origins \<and> csv_entries origins \<noteq> [])"
    using t1 by blast
  have p2: "enableDnsRebindingProtection (transportOptions default_options ?e2) \<longleftrightarrow>
      (\<exists>hosts. ?e2 ''MCP_HTTP_ALLOWED_HOSTS'' = Some hosts \<and> csv_entries hosts \<noteq> []) \<or>
      (\<exists>origins. ?e2 ''MCP_HTTP_ALLOWED_ORIGINS'' = Some origins \<and> csv_entries origins \<noteq> [])"
    using t2 by blast
  have p3: "enableDnsRebindingProtection (transportOptions default_options ?e3) \<longleftrightarrow>
      (\<exists>hosts. ?e3 ''MCP_HTTP_ALLOWED_HOSTS'' = Some hosts \<and> csv_entries hosts \<noteq> []) \<or>
      (\<exists>origins. ?e3 ''MCP_HTTP_ALLOWED_ORIGINS'' = Some origins \<and> csv_entries origins \<noteq> [])"
    using t3 by blast
  have p4: "enableDnsRebindingProtection (transportOptions default_options Map.empty) \<longleftrightarrow>
      (\<exists>hosts. Map.empty ''MCP_HTTP_ALLOWED_HOSTS'' = Some hosts \<and> csv_entries hosts \<noteq> []) \<or>
      (\<exists>origins. Map.empty ''MCP_HTTP_ALLOWED_ORIGINS'' = Some origins \<and>
         csv_entries origins \<noteq> [])"
    using t4 by blast
  have q3: "transport_allowedOrigins (transportOptions default_options ?e3) =
      parseCsvEnv (?e3 ''MCP_HTTP_ALLOWED_ORIGINS'')"
    "parseCsvEnv (Some ''https://a.example'') = parseCsv (Some ''https://a.example'')"
    "parseCsv (Some ''https://a.example'') =
       (if csv_entries ''https://a.example'' = [] then None
        else Some (csv_entries ''https://a.example''))"
    using t3 by blast+
  have 3: "enableDnsRebindingProtection (transportOptions default_options ?e1)"
    using p1 by (simp add: c)
  have 4: "enableDnsRebindingProtection (transportOptions default_options ?e3)"
    using p3 by (simp add: f)
  have 5: "transport_allowedOrigins (transportOptions default_options ?e3) =
      Some [''https://a.example'']"
    using q3 by (simp add: f)
  have 6: "\<not> enableDnsRebindingProtection (transportOptions default_options ?e2)"
    using p2 by (simp add: d)
  have 7: "\<not> enableDnsRebindingProtection (transportOptions default_options Map.empty)"
    using p4 by simp
  show ?thesis using 1 2 3 4 5 6 7 by simp
qed

lemma port_default:
  "rawPort e = None \<or> rawPort e = Some [] \<Longrightarrow> port (getHttpServerConfig e) = Num 8080"
  by (auto simp: getHttpServerConfig_def parsedPort_def DEFAULT_HTTP_PORT_def)

lemma port_unreadable:
  "rawPort e = Some r \<Longrightarrow> \<not> has_leading_integer r \<Longrightarrow> port (getHttpServerConfig e) = Num 8080"
  using parseInt10_NaN_iff[of r]
  by (simp add: getHttpServerConfig_def parsedPort_def DEFAULT_HTTP_PORT_def)

lemma has_leading_integer_nonempty: "has_leading_integer r \<Longrightarrow> r \<noteq> []"
  by (auto simp: has_leading_integer_def strip_sign_def)

lemma port_not_positive:
  assumes "rawPort e = Some r" and "has_leading_integer r"
    and "leading_negative r \<or> digits_value (leading_digits r) = 0"
  shows "port (getHttpServerConfig e) = Num 8080"
proof -
  have ne: "r \<noteq> []" using assms(2) by (rule has_leading_integer_nonempty)
  have "parseInt10 r = NegInfinity \<or> (\<exists>n. parseInt10 r = Num n \<and> n \<le> 0)"
    using assms(3) parseInt10_reads[OF assms(2)]
    by (auto simp: nearest_double_small split: option.splits)
  then show ?thesis
    using assms(1) ne
    by (auto simp: getHttpServerConfig_def parsedPort_def DEFAULT_HTTP_PORT_def)
qed

lemma port_positive:
  assumes "rawPort e = Some r" and "has_leading_integer r" and "\<not> leading_negative r"
    and "0 < digits_value (leading_digits r)"
  shows "port (getHttpServerConfig e) =
           (case nearest_double (digits_value (leading_digits r)) of
              None \<Rightarrow> PosInfinity
            | Some d \<Rightarrow> Num (int d))"
proof -
  have ne: "r \<noteq> []" using assms(2) by (rule has_leading_integer_nonempty)
  show ?thesis
  proof (cases "nearest_double (digits_value (leading_digits r))")
    case None
    then have "parseInt10 r = PosInfinity"
      using parseInt10_reads[OF assms(2)] assms(3) by simp
    then show ?thesis
      using assms(1) ne None by (simp add: getHttpServerConfig_def parsedPort_def)
  next
    case (Some d)
    then have d: "0 < d" using nearest_double_pos[OF assms(4)] by simp
    have "parseInt10 r = Num (int d)"
      using parseInt10_reads[OF assms(2)] assms(3) Some by simp
    then show ?thesis
      using assms(1) ne Some d by (simp add: getHttpServerConfig_def parsedPort_def)
  qed
qed

lemma host_default:
  "e ''MCP_HTTP_HOST'' = None \<or> (\<exists>h. e ''MCP_HTTP_HOST'' = Some h \<and> trim h = []) \<longrightarrow>
   host (getHttpServerConfig e) = ''0.0.0.0''"
  by (auto simp: getHttpServerConfig_def DEFAULT_HTTP_HOST_def)

lemma logLevel_default:
  "e ''LOG_LEVEL'' = None \<or>
   (\<exists>l. e ''LOG_LEVEL'' = Some l \<and>
        toLowerCase l \<notin> set [''debug'', ''info'', ''warn'', ''error'']) \<longrightarrow>
   getLogLevel e = Info"
  by (auto simp: getLogLevel_def normalizeLogLevel_def DEFAULT_LOG_LEVEL_def Let_def)

text \<open>
  Claim C7, as amended.  The resolver is a total function of the environment (the source
  has no \<^verbatim>\<open>throw\<close> on this path).  The port is 8080 when the variable is missing or
  empty, when its value does not start, after leading white space and one optional sign,
  with a decimal digit, and when the integer it starts with is not positive.  When the
  value starts with a positive integer, the port is the double nearest to that integer
  (the integer itself below \<open>2 ^ 53\<close>, \<^verbatim>\<open>Infinity\<close> when no double is near), whatever
  follows the digits.  A missing or blank host gives \<open>0.0.0.0\<close>, a missing base path
  \<open>/mcp\<close>, a missing session variable the stateful mode, and a missing or unknown log
  level \<open>info\<close>.
\<close>

theorem getHttpServerConfig_defaults:
  "(rawPort e = None \<or> rawPort e = Some [] \<longrightarrow> port (getHttpServerConfig e) = Num 8080) \<and>
   (rawPort e = Some r \<and> \<not> has_leading_integer r \<longrightarrow> port (getHttpServerConfig e) = Num 8080) \<and>
   (rawPort e = Some r \<and> has_leading_integer r \<and>
      (leading_negative r \<or> digits_value (leading_digits r) = 0) \<longrightarrow>
      port (getHttpServerConfig e) = Num 8080) \<and>
   (rawPort e = Some r \<and> has_leading_integer r \<and> \<not> leading_negative r \<and>
      0 < digits_value (leading_digits r) \<longrightarrow>
      port (getHttpServerConfig e) =
        (case nearest_double (digits_value (leading_digits r)) of
           None \<Rightarrow> PosInfinity
         | Some d \<Rightarrow> Num (int d))) \<and>
   (rawPort e = Some r \<and> has_leading_integer r \<and> \<not> leading_negative r \<and>
      0 < digits_value (leading_digits r) \<and> digits_value (leading_digits r) < 2 ^ 53 \<longrightarrow>
      port (getHttpServerConfig e) = Num (int (digits_value (leading_digits r)))) \<and>
   (e ''MCP_HTTP_HOST'' = None \<or> (\<exists>h. e ''MCP_HTTP_HOST'' = Some h \<and> trim h = []) \<longrightarrow>
      host (getHttpServerConfig e) = ''0.0.0.0'') \<and>
   (e ''MCP_HTTP_PATH'' = None \<longrightarrow> basePath (getHttpServerConfig e) = ''/mcp'') \<and>
   (e ''MCP_HTTP_SESSION_STATEFUL'' = None \<longrightarrow> sessionStateful (getHttpServerConfig e)) \<and>
   (e ''LOG_LEVEL'' = None \<or>
    (\<exists>l. e ''LOG_LEVEL'' = Some l \<and>
         toLowerCase l \<notin> set [''debug'', ''info'', ''warn'', ''error'']) \<longrightarrow>
      getLogLevel e = Info)"
proof -
  have p: "e ''MCP_HTTP_PATH'' = None \<longrightarrow> basePath (getHttpServerConfig e) = ''/mcp''"
    by (simp add: getHttpServerConfig_def normalizeHttpBasePath_def DEFAULT_HTTP_BASE_PATH_def)
  have s: "e ''MCP_HTTP_SESSION_STATEFUL'' = None \<longrightarrow> sessionStateful (getHttpServerConfig e)"
    by (simp add: getHttpServerConfig_def)
  have q: "rawPort e = Some r \<and> has_leading_integer r \<and> \<not> leading_negative r \<and>
      0 < digits_value (leading_digits r) \<and> digits_value (leading_digits r) < 2 ^ 53 \<longrightarrow>
      port (getHttpServerConfig e) = Num (int (digits_value (leading_digits r)))"
    using port_positive[of e r] by (auto simp: nearest_double_small)
  show ?thesis
    using port_default[of e] port_unreadable[of e r] port_not_positive[of e r]
      port_positive[of e r] q host_default[of e] p s logLevel_default[of e]
    by blast
qed

text \<open>
  Claim C7 as stated fails for a port value that is not numeric but starts with digits:
  \<open>80abc\<close> yields port 80, not the default.
\<close>

theorem getHttpServerConfig_port_prefix_counterexample:
  "\<not> numeric ''80abc'' \<and>
   port (getHttpServerConfig [''MCP_HTTP_PORT'' \<mapsto> ''80abc'']) = Num 80"
  by (simp add: numeric_def is_digit_def getHttpServerConfig_def parsedPort_def rawPort_def
      parseInt10_def strip_sign_def is_js_space_def digits_value_def digit_val_def
      nearest_double_def)

text \<open>The amended claim C7 at concrete environments, one for each hypothesis; the last
  two ports are \<open>2 ^ 53 + 1\<close> and \<open>2 ^ 54 + 3\<close> as text, and \<open>2 ^ 53\<close> and
  \<open>2 ^ 54 + 4\<close> as numbers.\<close>

theorem getHttpServerConfig_defaults_witness:
  "port (getHttpServerConfig Map.empty) = Num 8080 \<and>
   port (getHttpServerConfig [''MCP_HTTP_PORT'' \<mapsto> ''http'']) = Num 8080 \<and>
   port (getHttpServerConfig [''PORT'' \<mapsto> '' -3'']) = Num 8080 \<and>
   port (getHttpServerConfig [''MCP_HTTP_PORT'' \<mapsto> ''3000'']) = Num 3000 \<and>
   port (getHttpServerConfig [''MCP_HTTP_PORT'' \<mapsto> ''9007199254740993'']) =
     Num 9007199254740992 \<and>
   port (getHttpServerConfig [''MCP_HTTP_PORT'' \<mapsto> ''18014398509481987'']) =
     Num 18014398509481988 \<and>
   host (getHttpServerConfig [''MCP_HTTP_HOST'' \<mapsto> ''  '']) = ''0.0.0.0'' \<and>
   basePath (getHttpServerConfig Map.empty) = ''/mcp'' \<and>
   sessionStateful (getHttpServerConfig Map.empty) \<and>
   getLogLevel [''LOG_LEVEL'' \<mapsto> ''verbose''] = Info"
proof -
  have r0: "rawPort Map.empty = None" by (simp add: rawPort_def)
  have r1: "rawPort [''MCP_HTTP_PORT'' \<mapsto> ''http''] = Some ''http''" by (simp add: rawPort_def)
  have r2: "rawPort [''PORT'' \<mapsto> '' -3''] = Some '' -3''" by (simp add: rawPort_def)
  have r3: "rawPort [''MCP_HTTP_PORT'' \<mapsto> ''3000''] = Some ''3000''" by (simp add: rawPort_def)
  have r4: "rawPort [''MCP_HTTP_PORT'' \<mapsto> ''9007199254740993''] = Some ''9007199254740993''"
    by (simp add: rawPort_def)
  have h1: "\<not> has_leading_integer ''http''"
    by (simp add: has_leading_integer_def strip_sign_def is_js_space_def is_digit_def)
  have h2: "has_leading_integer '' -3''" "leading_negative '' -3''"
    by (simp_all add: has_leading_integer_def leading_negative_def strip_sign_def
        is_js_space_def is_digit_def)
  have h3: "has_leading_integer ''3000''" "\<not> leading_negative ''3000''"
    "digits_value (leading_digits ''3000'') = 3000"
    by (simp_all add: has_leading_integer_def leading_negative_def leading_digits_def
        strip_sign_def is_js_space_def is_digit_def digits_value_def digit_val_def)
  have h4: "has_leading_integer ''9007199254740993''" "\<not> leading_negative ''9007199254740993''"
    "digits_value (leading_digits ''9007199254740993'') = 9007199254740993"
    by (simp_all add: has_leading_integer_def leading_negative_def leading_digits_def
        strip_sign_def is_js_space_def is_digit_def digits_value_def digit_val_def)
  have b: "bit_length 9007199254740993 = 54"
    by (simp add: bit_length.simps)
  have n3: "nearest_double 3000 = Some 3000"
    by (simp add: nearest_double_def)
  have n4: "nearest_double 9007199254740993 = Some 9007199254740992"
    by (simp add: nearest_double_def b Let_def)
  have r7: "rawPort [''MCP_HTTP_PORT'' \<mapsto> ''18014398509481987''] = Some ''18014398509481987''"
    by (simp add: rawPort_def)
  have h7: "has_leading_integer ''18014398509481987''" "\<not> leading_negative ''18014398509481987''"
    "digits_value (leading_digits ''18014398509481987'') = 18014398509481987"
    by (simp_all add: has_leading_integer_def leading_negative_def leading_digits_def
        strip_sign_def is_js_space_def is_digit_def digits_value_def digit_val_def)
  have n7: "nearest_double 18014398509481987 = Some 18014398509481988"
    by (simp add: nearest_double_def bit_length.simps Let_def)
  have 7: "port (getHttpServerConfig [''MCP_HTTP_PORT'' \<mapsto> ''18014398509481987'']) =
      Num 18014398509481988"
    using getHttpServerConfig_defaults[of "[''MCP_HTTP_PORT'' \<mapsto> ''18014398509481987'']"
        "''18014398509481987''"] r7 h7 n7
    by simp
  have h5: "trim ''  '' = []" by (simp add: trim_def is_js_space_def)
  have h6: "toLowerCase ''verbose'' = ''verbose''" by code_simp
  have 0: "port (getHttpServerConfig Map.empty) = Num 8080 \<and>
           basePath (getHttpServerConfig Map.empty) = ''/mcp'' \<and>
           sessionStateful (getHttpServerConfig Map.empty)"
    using getHttpServerConfig_defaults[of Map.empty "[]"] r0 by simp
  have 1: "port (getHttpServerConfig [''MCP_HTTP_PORT'' \<mapsto> ''http'']) = Num 8080"
    using getHttpServerConfig_defaults[of "[''MCP_HTTP_PORT'' \<mapsto> ''http'']" "''http''"] r1 h1
    by simp
  have 2: "port (getHttpServerConfig [''PORT'' \<mapsto> '' -3'']) = Num 8080"
    using getHttpServerConfig_defaults[of "[''PORT'' \<mapsto> '' -3'']" "'' -3''"] r2 h2
    by simp
  have 3: "port (getHttpServerConfig [''MCP_HTTP_PORT'' \<mapsto> ''3000'']) = Num 3000"
    using getHttpServerConfig_defaults[of "[''MCP_HTTP_PORT'' \<mapsto> ''3000'']" "''3000''"] r3 h3 n3
    by simp
  have 4: "port (getHttpServerConfig [''MCP_HTTP_PORT'' \<mapsto> ''9007199254740993'']) =
      Num 9007199254740992"
    using getHttpServerConfig_defaults[of "[''MCP_HTTP_PORT'' \<mapsto> ''9007199254740993'']"
        "''9007199254740993''"] r4 h4 n4
    by simp
  have 5: "host (getHttpServerConfig [''MCP_HTTP_HOST'' \<mapsto> ''  '']) = ''0.0.0.0''"
    using getHttpServerConfig_defaults[of "[''MCP_HTTP_HOST'' \<mapsto> ''  '']" "[]"] h5
    by simp
  have 6: "getLogLevel [''LOG_LEVEL'' \<mapsto> ''verbose''] = Info"
    using getHttpServerConfig_defaults[of "[''LOG_LEVEL'' \<mapsto> ''verbose'']" "[]"] h6
    by simp
  show ?thesis using 0 1 2 3 4 5 6 7 by simp
qed

lemma normalize_default:
  "p = None \<or> (\<exists>s. p = Some s \<and> trim s = []) \<longrightarrow> normalizeHttpBasePath p = ''/mcp''"
  by (auto simp: normalizeHttpBasePath_def DEFAULT_HTTP_BASE_PATH_def)

lemma normalize_starts: "startsWith_slash (normalizeHttpBasePath p)"
  by (auto simp: normalizeHttpBasePath_def DEFAULT_HTTP_BASE_PATH_def startsWith_slash_def
      endsWith_slash_def Let_def split: option.splits list.splits)

lemma trim_Nil: "trim [] = []"
  by (simp add: trim_def)

lemma normalize_prepend:
  assumes "trim s \<noteq> []" and "\<not> startsWith_slash (trim s)"
  shows "normalizeHttpBasePath (Some s) =
           CHR ''/'' # (if endsWith_slash (trim s) then butlast (trim s) else trim s)"
    and "single_leading_slash (normalizeHttpBasePath (Some s))"
proof -
  from assms(1) have s: "s \<noteq> []" using trim_Nil by auto
  obtain c cs where t: "trim s = c # cs" using assms(1) by (cases "trim s") auto
  with assms(2) have c: "c \<noteq> CHR ''/''" by (simp add: startsWith_slash_def)
  have e: "endsWith_slash (CHR ''/'' # trim s) = endsWith_slash (trim s)"
    using t by (simp add: endsWith_slash_def)
  show 1: "normalizeHttpBasePath (Some s) =
           CHR ''/'' # (if endsWith_slash (trim s) then butlast (trim s) else trim s)"
    using assms s e t by (simp add: normalizeHttpBasePath_def Let_def)
  have "cs \<noteq> [] \<Longrightarrow> butlast (c # cs) = c # butlast cs" by simp
  moreover have "endsWith_slash (c # cs) \<Longrightarrow> cs \<noteq> []"
    using c by (auto simp: endsWith_slash_def)
  ultimately show "single_leading_slash (normalizeHttpBasePath (Some s))"
    using 1 t c by (auto simp: single_leading_slash_def startsWith_slash_def)
qed

lemma normalize_keep:
  assumes "startsWith_slash (trim s)"
  shows "normalizeHttpBasePath (Some s) =
           (if trim s = ''/'' then ''/''
            else if endsWith_slash (trim s) then butlast (trim s) else trim s)"
proof -
  obtain cs where t: "trim s = CHR ''/'' # cs"
    using assms by (cases "trim s") (auto simp: startsWith_slash_def)
  then have s: "s \<noteq> []" using trim_Nil by auto
  show ?thesis using assms s t by (simp add: normalizeHttpBasePath_def Let_def)
qed

text \<open>
  Claim C8, as amended.  The normalized base path always begins with a slash.  A missing
  or white-space-only input gives \<open>/mcp\<close>.  A trimmed input without a leading slash gets
  one prepended, and the result then has a single leading slash; a trimmed input that
  begins with a slash gets none prepended.  In both cases one trailing slash is stripped,
  except that the path \<open>/\<close> is returned as it is.
\<close>

theorem normalizeHttpBasePath_shape:
  "startsWith_slash (normalizeHttpBasePath p) \<and>
   (p = None \<or> (\<exists>s. p = Some s \<and> trim s = []) \<longrightarrow> normalizeHttpBasePath p = ''/mcp'') \<and>
   (trim s \<noteq> [] \<and> \<not> startsWith_slash (trim s) \<longrightarrow>
      single_leading_slash (normalizeHttpBasePath (Some s)) \<and>
      normalizeHttpBasePath (Some s) =
        CHR ''/'' # (if endsWith_slash (trim s) then butlast (trim s) else trim s)) \<and>
   (startsWith_slash (trim s) \<longrightarrow>
      normalizeHttpBasePath (Some s) =
        (if trim s = ''/'' then ''/''
         else if endsWith_slash (trim s) then butlast (trim s) else trim s)) \<and>
   (trim s = ''/'' \<longrightarrow> normalizeHttpBasePath (Some s) = ''/'')"
proof -
  have "trim s = ''/'' \<longrightarrow> normalizeHttpBasePath (Some s) = ''/''"
    using normalize_keep[of s] by (simp add: startsWith_slash_def)
  then show ?thesis
    using normalize_starts[of p] normalize_default[of p] normalize_prepend[of s]
      normalize_keep[of s]
    by blast
qed

text \<open>
  Claim C8 as stated fails for an input with two leading slashes: \<open>//foo\<close> is returned
  unchanged, so the result does not have a single leading slash.
\<close>

theorem normalizeHttpBasePath_double_slash_counterexample:
  "normalizeHttpBasePath (Some ''//foo'') = ''//foo'' \<and>
   \<not> single_leading_slash (normalizeHttpBasePath (Some ''//foo''))"
  by code_simp

text \<open>The amended claim C8 at concrete inputs.\<close>

theorem normalizeHttpBasePath_shape_witness:
  "normalizeHttpBasePath None = ''/mcp'' \<and>
   normalizeHttpBasePath (Some ''   '') = ''/mcp'' \<and>
   normalizeHttpBasePath (Some '' api/v1/ '') = ''/api/v1'' \<and>
   single_leading_slash (normalizeHttpBasePath (Some '' api/v1/ '')) \<and>
   normalizeHttpBasePath (Some ''/'') = ''/'' \<and>
   normalizeHttpBasePath (Some ''/mcp/'') = ''/mcp''"
proof -
  have t1: "trim ''   '' = []" by code_simp
  have t2: "trim '' api/v1/ '' = ''api/v1/''" by code_simp
  have t3: "trim ''/'' = ''/''" by code_simp
  have t4: "trim ''/mcp/'' = ''/mcp/''" by code_simp
  have e2: "endsWith_slash ''api/v1/''" "\<not> startsWith_slash ''api/v1/''" by code_simp+
  have e3: "startsWith_slash ''/''" by code_simp
  have e4: "startsWith_slash ''/mcp/''" "endsWith_slash ''/mcp/''" by code_simp+
  have 0: "normalizeHttpBasePath None = ''/mcp''"
    using normalizeHttpBasePath_shape[of None "[]"] by simp
  have 1: "normalizeHttpBasePath (Some ''   '') = ''/mcp''"
    using normalizeHttpBasePath_shape[of "Some ''   ''" "[]"] t1 by simp
  have 2: "normalizeHttpBasePath (Some '' api/v1/ '') = ''/api/v1'' \<and>
           single_leading_slash (normalizeHttpBasePath (Some '' api/v1/ ''))"
    using normalizeHttpBasePath_shape[of None "'' api/v1/ ''"] t2 e2
    by (simp add: single_leading_slash_def startsWith_slash_def)
  have 3: "normalizeHttpBasePath (Some ''/'') = ''/''"
    using normalizeHttpBasePath_shape[of None "''/''"] t3 e3 by simp
  have 4: "normalizeHttpBasePath (Some ''/mcp/'') = ''/mcp''"
    using normalizeHttpBasePath_shape[of None "''/mcp/''"] t4 e4 by simp
  show ?thesis using 0 1 2 3 4 by (simp add: single_leading_slash_def startsWith_slash_def)
qed

text \<open>
  Claim C10, as amended.  The HTTP entry point starts stateless exactly when the
  \<^verbatim>\<open>sessionMode\<close> option is \<open>stateless\<close>, or the option is absent and
  \<^verbatim>\<open>MCP_HTTP_SESSION_MODE\<close> lower-cases to \<open>stateless\<close>; the transport gets a session
  identifier generator exactly when the mode is not stateless.  The variable
  \<^verbatim>\<open>MCP_HTTP_SESSION_STATEFUL\<close>, which the configuration resolver reads (every value
  but \<open>false\<close>, in any case, means stateful), has no effect on that mode, and for every
  choice of options there is an environment in which the two settings disagree.
\<close>

theorem resolve_sessionMode_stateless_iff:
  "(resolve_sessionMode options e = Stateless \<longleftrightarrow>
      opt_sessionMode options = Some Stateless \<or>
      (opt_sessionMode options = None \<and>
       (\<exists>v. e ''MCP_HTTP_SESSION_MODE'' = Some v \<and> toLowerCase v = ''stateless''))) \<and>
   has_sessionIdGenerator (transportOptions options e) =
     (resolve_sessionMode options e \<noteq> Stateless) \<and>
   resolve_sessionMode options (e(''MCP_HTTP_SESSION_STATEFUL'' := x)) =
     resolve_sessionMode options e \<and>
   (sessionStateful (getHttpServerConfig e) \<longleftrightarrow>
      \<not> (\<exists>v. e ''MCP_HTTP_SESSION_STATEFUL'' = Some v \<and> toLowerCase v = ''false'')) \<and>
   (\<exists>e'. sessionStateful (getHttpServerConfig e') \<noteq> (resolve_sessionMode options e' = Stateful))"
proof -
  have 1: "resolve_sessionMode options e = Stateless \<longleftrightarrow>
      opt_sessionMode options = Some Stateless \<or>
      (opt_sessionMode options = None \<and>
       (\<exists>v. e ''MCP_HTTP_SESSION_MODE'' = Some v \<and> toLowerCase v = ''stateless''))"
    by (auto simp: resolve_sessionMode_def split: option.splits)
  have 2: "has_sessionIdGenerator (transportOptions options e) =
     (resolve_sessionMode options e \<noteq> Stateless)"
    by (simp add: transportOptions_def Let_def)
  have 3: "resolve_sessionMode options (e(''MCP_HTTP_SESSION_STATEFUL'' := x)) =
     resolve_sessionMode options e"
    by (simp add: resolve_sessionMode_def split: option.splits)
  have 4: "sessionStateful (getHttpServerConfig e) \<longleftrightarrow>
      \<not> (\<exists>v. e ''MCP_HTTP_SESSION_STATEFUL'' = Some v \<and> toLowerCase v = ''false'')"
    by (auto simp: getHttpServerConfig_def toLowerCase_def split: option.splits)
  have f: "toLowerCase ''false'' = ''false''" by code_simp
  have 5: "\<exists>e'. sessionStateful (getHttpServerConfig e') \<noteq> (resolve_sessionMode options e' = Stateful)"
  proof (cases "opt_sessionMode options = Some Stateless")
    case True
    then have "sessionStateful (getHttpServerConfig Map.empty) \<noteq>
        (resolve_sessionMode options Map.empty = Stateful)"
      by (simp add: getHttpServerConfig_def resolve_sessionMode_def)
    then show ?thesis by blast
  next
    case False
    then have "sessionStateful (getHttpServerConfig [''MCP_HTTP_SESSION_STATEFUL'' \<mapsto> ''false'']) \<noteq>
        (resolve_sessionMode options [''MCP_HTTP_SESSION_STATEFUL'' \<mapsto> ''false''] = Stateful)"
      using f by (cases "opt_sessionMode options"; cases "the (opt_sessionMode options)")
        (auto simp: getHttpServerConfig_def resolve_sessionMode_def)
    then show ?thesis by blast
  qed
  show ?thesis using 1 2 3 4 5 by blast
qed

text \<open>
  Claim C10 as stated fails when the option says \<open>stateful\<close> and the environment says
  \<open>stateless\<close>: the option wins and the server starts stateful.
\<close>

theorem resolve_sessionMode_option_wins_counterexample:
  "toLowerCase ''stateless'' = ''stateless'' \<and>
   resolve_sessionMode
     \<lparr>opt_port = None, opt_host = None, opt_sessionMode = Some Stateful, opt_handleSignals = None\<rparr>
     [''MCP_HTTP_SESSION_MODE'' \<mapsto> ''stateless''] = Stateful"
  by code_simp

text \<open>The amended claim C10 at a concrete environment, in which the two settings
  disagree.\<close>

theorem resolve_sessionMode_stateless_iff_witness:
  "resolve_sessionMode
     \<lparr>opt_port = None, opt_host = None, opt_sessionMode = None, opt_handleSignals = None\<rparr>
     [''MCP_HTTP_SESSION_MODE'' \<mapsto> ''StateLess'', ''MCP_HTTP_SESSION_STATEFUL'' \<mapsto> ''true''] = Stateless \<and>
   sessionStateful (getHttpServerConfig
     [''MCP_HTTP_SESSION_MODE'' \<mapsto> ''StateLess'', ''MCP_HTTP_SESSION_STATEFUL'' \<mapsto> ''true''])"
proof -
  let ?o = "\<lparr>opt_port = None, opt_host = None, opt_sessionMode = None, opt_handleSignals = None\<rparr>"
  let ?e = "[''MCP_HTTP_SESSION_MODE'' \<mapsto> ''StateLess'', ''MCP_HTTP_SESSION_STATEFUL'' \<mapsto> ''true'']"
  have a: "toLowerCase ''StateLess'' = ''stateless''" by code_simp
  have b: "toLowerCase ''true'' = ''true''" by code_simp
  show ?thesis
    using resolve_sessionMode_stateless_iff[of ?o ?e None] by (simp add: a b)
qed

section \<open>Properties of the request listener\<close>

lemma envelope_text:
  \<open>JSON_stringify internal_error_envelope =
     ''{"jsonrpc":"2.0","error":{"code":-32000,"message":"Internal server error"},"id":null}''\<close>
  by (simp add: internal_error_envelope_def quote_def escape_char_def show_int_def digit_char_def)

text \<open>
  Claim C3.  Whenever forwarding a request into the transport rejects, the listener's own
  promise resolves (nothing propagates to the process), it has printed one line, and the
  response has ended.  If the headers had not been sent, the response has status 500, the
  JSON content type and the body \<^verbatim>\<open>{jsonrpc: "2.0", error: {code, message}, id: null}\<close>
  appended; if they had been sent, status, headers and body stay as they were and the
  response is only ended.
\<close>

theorem requestListener_internal_error:
  assumes "handleRequest req res = Rejected err res'"
  shows "\<exists>res''.
           requestListener handleRequest req res =
             ([Console ''Failed to handle HTTP request:''], Resolved res'') \<and>
           writableEnded res'' \<and>
           (\<not> headersSent res' \<longrightarrow>
              statusCode res'' = 500 \<and>
              res_headers res'' = res_headers res' @ [(''Content-Type'', ''application/json'')] \<and>
              res_body res'' = res_body res' @ JSON_stringify internal_error_envelope) \<and>
           (headersSent res' \<longrightarrow>
              statusCode res'' = statusCode res' \<and>
              res_headers res'' = res_headers res' \<and>
              res_body res'' = res_body res')"
proof (cases "headersSent res'")
  case True
  then have "requestListener handleRequest req res =
      ([Console ''Failed to handle HTTP request:''], Resolved (end_plain res'))"
    using assms by (simp add: requestListener_def)
  moreover have "writableEnded (end_plain res')"
    by (simp add: end_plain_def writableEnded_def)
  moreover have "statusCode (end_plain res') = statusCode res'"
    "res_headers (end_plain res') = res_headers res'"
    "res_body (end_plain res') = res_body res'"
    by (simp_all add: end_plain_def)
  ultimately show ?thesis using True by simp
next
  case False
  define r1 where "r1 = res'\<lparr>phase := HeadersSent, statusCode := 500,
      res_headers := res_headers res' @ [(''Content-Type'', ''application/json'')]\<rparr>"
  define r2 where "r2 = end_chunk (JSON_stringify internal_error_envelope) r1"
  have w: "writeHead 500 [(''Content-Type'', ''application/json'')] res' = Inr r1"
    using False by (simp add: writeHead_def r1_def)
  have "requestListener handleRequest req res =
      ([Console ''Failed to handle HTTP request:''], Resolved r2)"
    using assms False w by (simp add: requestListener_def r2_def)
  moreover have "writableEnded r2"
    by (simp add: r2_def end_chunk_def writableEnded_def)
  moreover have "statusCode r2 = 500"
    "res_headers r2 = res_headers res' @ [(''Content-Type'', ''application/json'')]"
    "res_body r2 = res_body res' @ JSON_stringify internal_error_envelope"
    by (simp_all add: r2_def r1_def end_chunk_def writableEnded_def)
  ultimately show ?thesis using False by simp
qed

text \<open>The listener on a fresh response, with a transport that throws before and after
  it has sent headers.\<close>

theorem requestListener_internal_error_witness:
  \<open>requestListener (\<lambda>req res. Rejected (Thrown ''boom'') res) () fresh_response =
     ([Console ''Failed to handle HTTP request:''],
      Resolved \<lparr> phase = Ended, statusCode = 500,
                 res_headers = [(''Content-Type'', ''application/json'')],
                 res_body = ''{"jsonrpc":"2.0","error":{"code":-32000,"message":"Internal server error"},"id":null}'' \<rparr>) \<and>
   requestListener (\<lambda>req res. Rejected (Thrown ''boom'') (res\<lparr>phase := HeadersSent\<rparr>)) () fresh_response =
     ([Console ''Failed to handle HTTP request:''],
      Resolved \<lparr> phase = Ended, statusCode = 200, res_headers = [], res_body = [] \<rparr>)\<close>
proof -
  let ?h1 = "\<lambda>(req::unit) res. Rejected (Thrown ''boom'') res"
  let ?h2 = "\<lambda>(req::unit) res. Rejected (Thrown ''boom'') (res\<lparr>phase := HeadersSent\<rparr>)"
  have f: "\<not> headersSent fresh_response"
    by (simp add: headersSent_def fresh_response_def)
  have s: "headersSent (fresh_response\<lparr>phase := HeadersSent\<rparr>)"
    by (simp add: headersSent_def)
  have a1: "?h1 () fresh_response = Rejected (Thrown ''boom'') fresh_response" by simp
  have a2: "?h2 () fresh_response = Rejected (Thrown ''boom'') (fresh_response\<lparr>phase := HeadersSent\<rparr>)"
    by simp
  from requestListener_internal_error[of ?h1 "()" fresh_response "Thrown ''boom''" fresh_response, OF a1] f
  obtain r where r: "requestListener ?h1 () fresh_response =
        ([Console ''Failed to handle HTTP request:''], Resolved r)"
      "writableEnded r" "statusCode r = 500"
      "res_headers r = res_headers fresh_response @ [(''Content-Type'', ''application/json'')]"
      "res_body r = res_body fresh_response @ JSON_stringify internal_error_envelope"
    by auto
  from requestListener_internal_error[of ?h2 "()" fresh_response "Thrown ''boom''"
      "fresh_response\<lparr>phase := HeadersSent\<rparr>", OF a2] s
  obtain r' where r': "requestListener ?h2 () fresh_response =
        ([Console ''Failed to handle HTTP request:''], Resolved r')"
      "writableEnded r'" "statusCode r' = statusCode fresh_response"
      "res_headers r' = res_headers fresh_response"
      "res_body r' = res_body fresh_response"
    by auto
  have "r = \<lparr> phase = Ended, statusCode = 500,
                 res_headers = [(''Content-Type'', ''application/json'')],
                 res_body = JSON_stringify internal_error_envelope \<rparr>"
    using r(2-5) by (cases r) (simp add: writableEnded_def fresh_response_def)
  moreover have "r' = \<lparr> phase = Ended, statusCode = 200, res_headers = [], res_body = [] \<rparr>"
    using r'(2-5) by (cases r') (simp add: writableEnded_def fresh_response_def)
  ultimately show ?thesis using r(1) r'(1) by (simp add: envelope_text)
qed

section \<open>Properties of shutdown and signal handling\<close>

lemma close_promise_Resolved:
  "close_promise c = Resolved w1 \<longleftrightarrow> (\<exists>cb. c = CallsBack cb w1)"
  by (cases c) simp_all

lemma shutdown_stop1:
  "httpServer_close rt w = Throws e w1 \<Longrightarrow>
     shutdown rt sig w = (received_line sig @ [Begin CloseListener], Rejected e w1)"
  "httpServer_close rt w = NeverCallsBack w1 \<Longrightarrow>
     shutdown rt sig w = (received_line sig @ [Begin CloseListener], Pending w1)"
  by (simp_all add: shutdown_def)



lemma shutdown_complete:
  "httpServer_close rt w = CallsBack cb w1 \<Longrightarrow> transport_close rt w1 = Resolved w2 \<Longrightarrow>
   mcpServer_close rt w2 = Resolved w3 \<Longrightarrow>
     shutdown rt sig w = (received_line sig @ teardown_order, Resolved w3)"
  by (simp add: shutdown_def teardown_order_def)




lemma spec_runtime_fields:
  "httpServer_close spec_runtime = spec_httpServer_close"
  "transport_close spec_runtime = spec_transport_close"
  "mcpServer_close spec_runtime = spec_mcpServer_close"
  by (simp_all add: spec_runtime_def)



text \<open>
  Claim C5, as amended.  For any collaborators: when the three closes of a first
  \<^verbatim>\<open>shutdown\<close> succeed and leave a state on which each of them is a no-op (the socket
  may report an error to the callback, which ignores it), a second \<^verbatim>\<open>shutdown\<close> on
  that state resolves too and leaves it as it is.  With the collaborators of the
  specification: on a server with no open push stream both calls resolve after all six
  steps, in the same end state, with the socket not listening and no session open; on a
  server with an open push stream both calls stay pending at the close of the socket,
  neither throws, the socket is not listening after either, and the sessions stay open.
\<close>

theorem shutdown_idempotent:
  "(httpServer_close rt w = CallsBack cb w1 \<and> transport_close rt w1 = Resolved w2 \<and>
    mcpServer_close rt w2 = Resolved w3 \<and>
    httpServer_close rt w3 = CallsBack cb' w3 \<and> transport_close rt w3 = Resolved w3 \<and>
    mcpServer_close rt w3 = Resolved w3 \<longrightarrow>
      shutdown rt sig w = (received_line sig @ teardown_order, Resolved w3) \<and>
      shutdown rt sig' w3 = (received_line sig' @ teardown_order, Resolved w3)) \<and>
   (push_streams s = 0 \<longrightarrow>
      shutdown spec_runtime sig s = (received_line sig @ teardown_order, Resolved (closed_state s)) \<and>
      shutdown spec_runtime sig' (closed_state s) =
        (received_line sig' @ teardown_order, Resolved (closed_state s)) \<and>
      \<not> listening (closed_state s) \<and> sessions (closed_state s) = []) \<and>
   (push_streams s \<noteq> 0 \<longrightarrow>
      shutdown spec_runtime sig s =
        (received_line sig @ [Begin CloseListener], Pending (s\<lparr>listening := False\<rparr>)) \<and>
      shutdown spec_runtime sig' (s\<lparr>listening := False\<rparr>) =
        (received_line sig' @ [Begin CloseListener], Pending (s\<lparr>listening := False\<rparr>)) \<and>
      \<not> listening (s\<lparr>listening := False\<rparr>) \<and>
      sessions (s\<lparr>listening := False\<rparr>) = sessions s)"
proof -
  have g: "httpServer_close rt w = CallsBack cb w1 \<and> transport_close rt w1 = Resolved w2 \<and>
    mcpServer_close rt w2 = Resolved w3 \<and>
    httpServer_close rt w3 = CallsBack cb' w3 \<and> transport_close rt w3 = Resolved w3 \<and>
    mcpServer_close rt w3 = Resolved w3 \<longrightarrow>
      shutdown rt sig w = (received_line sig @ teardown_order, Resolved w3) \<and>
      shutdown rt sig' w3 = (received_line sig' @ teardown_order, Resolved w3)"
    using shutdown_complete[of rt w cb w1 w2 w3 sig] shutdown_complete[of rt w3 cb' w3 w3 w3 sig']
    by blast
  have a: "shutdown spec_runtime sig s = (received_line sig @ teardown_order, Resolved (closed_state s))"
    if "push_streams s = 0"
    by (rule shutdown_complete[where ?w1.0 = "s\<lparr>listening := False\<rparr>"
          and ?w2.0 = "s\<lparr>listening := False, draining := True, sessions := [], push_streams := 0\<rparr>"
          and cb = "if listening s then None else Some (Thrown ''ERR_SERVER_NOT_RUNNING'')"])
      (simp_all add: that spec_runtime_fields spec_httpServer_close_def spec_transport_close_def
         spec_mcpServer_close_def closed_state_def)
  have b: "shutdown spec_runtime sig' (closed_state s) =
      (received_line sig' @ teardown_order, Resolved (closed_state s))"
    by (rule shutdown_complete[where ?w1.0 = "closed_state s" and ?w2.0 = "closed_state s"
          and cb = "Some (Thrown ''ERR_SERVER_NOT_RUNNING'')"])
      (simp_all add: spec_runtime_fields spec_httpServer_close_def spec_transport_close_def
         spec_mcpServer_close_def closed_state_def)
  have c: "shutdown spec_runtime sig'' v =
      (received_line sig'' @ [Begin CloseListener], Pending (v\<lparr>listening := False\<rparr>))"
    if "push_streams v \<noteq> 0" for v sig''
    by (rule shutdown_stop1(2)) (simp add: that spec_runtime_fields spec_httpServer_close_def)
  have d: "push_streams s \<noteq> 0 \<longrightarrow>
      shutdown spec_runtime sig s =
        (received_line sig @ [Begin CloseListener], Pending (s\<lparr>listening := False\<rparr>)) \<and>
      shutdown spec_runtime sig' (s\<lparr>listening := False\<rparr>) =
        (received_line sig' @ [Begin CloseListener], Pending (s\<lparr>listening := False\<rparr>))"
    using c[of s sig] c[of "s\<lparr>listening := False\<rparr>" sig'] by simp
  have e: "\<not> listening (closed_state s)" "sessions (closed_state s) = []"
    by (simp_all add: closed_state_def)
  show ?thesis using g a b d e by simp
qed

text \<open>
  Claim C5 as stated fails for a started server on which a client holds a push stream
  open: the GET opens the stream, \<^verbatim>\<open>shutdown\<close> then waits for the socket's close
  callback, which does not come, and the session is still open.
\<close>

theorem shutdown_idempotent_counterexample:
  "gate example_params serving_state stream_request = (Forward None, streaming_state) \<and>
   shutdown spec_runtime None streaming_state =
     ([Begin CloseListener], Pending (streaming_state\<lparr>listening := False\<rparr>)) \<and>
   sessions (streaming_state\<lparr>listening := False\<rparr>) = [(''session-0'', ''2025-06-18'')]"
proof -
  have n: "content_negotiated stream_request"
    by (simp add: content_negotiated_def accepts_def stream_request_def)
  have 1: "gate example_params serving_state stream_request = (Forward None, streaming_state)"
    using n by (simp add: gate_def validate_session_def validate_version_def lookup_def
        stream_request_def serving_state_def streaming_state_def initialized_state_def
        fresh_state_def)
  have 2: "shutdown spec_runtime None streaming_state =
     ([Begin CloseListener], Pending (streaming_state\<lparr>listening := False\<rparr>))"
    by (simp add: shutdown_def spec_runtime_def spec_httpServer_close_def received_line_def
        streaming_state_def)
  have 3: "sessions (streaming_state\<lparr>listening := False\<rparr>) = [(''session-0'', ''2025-06-18'')]"
    by (simp add: streaming_state_def serving_state_def initialized_state_def)
  show ?thesis using 1 2 3 by simp
qed

text \<open>Two shutdowns of a server with one open session, without and with an open push
  stream.\<close>

theorem shutdown_idempotent_witness:
  "shutdown spec_runtime None serving_state =
     (teardown_order, Resolved (closed_state serving_state)) \<and>
   shutdown spec_runtime None (closed_state serving_state) =
     (teardown_order, Resolved (closed_state serving_state)) \<and>
   sessions (closed_state serving_state) = [] \<and>
   snd (shutdown spec_runtime None streaming_state) =
     Pending (streaming_state\<lparr>listening := False\<rparr>) \<and>
   snd (shutdown spec_runtime None (streaming_state\<lparr>listening := False\<rparr>)) =
     Pending (streaming_state\<lparr>listening := False\<rparr>)"
proof -
  let ?w1 = "serving_state\<lparr>listening := False\<rparr>"
  let ?w2 = "serving_state\<lparr>listening := False, draining := True, sessions := [],
      push_streams := 0\<rparr>"
  let ?w3 = "closed_state serving_state"
  let ?err = "Some (Thrown ''ERR_SERVER_NOT_RUNNING'')"
  have p: "push_streams serving_state = 0" "push_streams streaming_state \<noteq> 0"
    "listening serving_state"
    by (simp_all add: serving_state_def streaming_state_def initialized_state_def fresh_state_def)
  have h: "httpServer_close spec_runtime serving_state = CallsBack None ?w1"
    "transport_close spec_runtime ?w1 = Resolved ?w2"
    "mcpServer_close spec_runtime ?w2 = Resolved ?w3"
    "httpServer_close spec_runtime ?w3 = CallsBack ?err ?w3"
    "transport_close spec_runtime ?w3 = Resolved ?w3"
    "mcpServer_close spec_runtime ?w3 = Resolved ?w3"
    using p by (simp_all add: spec_runtime_fields spec_httpServer_close_def
        spec_transport_close_def spec_mcpServer_close_def closed_state_def)
  note t1 = shutdown_idempotent[where rt = spec_runtime and w = serving_state and cb = None
      and ?w1.0 = ?w1 and ?w2.0 = ?w2 and ?w3.0 = ?w3 and cb' = ?err
      and s = serving_state and sig = None and sig' = None]
  note t2 = shutdown_idempotent[where rt = spec_runtime and w = serving_state and cb = None
      and ?w1.0 = ?w1 and ?w2.0 = ?w2 and ?w3.0 = ?w3 and cb' = ?err
      and s = streaming_state and sig = None and sig' = None]
  have a: "shutdown spec_runtime None serving_state =
      (received_line None @ teardown_order, Resolved ?w3) \<and>
    shutdown spec_runtime None ?w3 = (received_line None @ teardown_order, Resolved ?w3)"
    using t1 h by blast
  have b: "sessions ?w3 = []"
    using t1 p(1) by blast
  have c: "shutdown spec_runtime None streaming_state =
        (received_line None @ [Begin CloseListener], Pending (streaming_state\<lparr>listening := False\<rparr>)) \<and>
      shutdown spec_runtime None (streaming_state\<lparr>listening := False\<rparr>) =
        (received_line None @ [Begin CloseListener], Pending (streaming_state\<lparr>listening := False\<rparr>))"
    using t2 p(2) by blast
  show ?thesis using a b c by (simp add: received_line_def)
qed
























section \<open>Properties of the request gate\<close>

lemma includes_self: "str_includes s s"
  by (cases s) simp_all

text \<open>
  Claim C2.  A POST whose \<^verbatim>\<open>Accept\<close> header does not advertise both
  \<open>application/json\<close> and \<open>text/event-stream\<close> is rejected as Not Acceptable, with status
  406 and a text containing \<open>Not Acceptable\<close>; the registry is left as it was, so no
  session is created.
\<close>

theorem gate_not_acceptable:
  "http_method r = POST \<and>
   \<not> (accepts r ''application/json'' \<and> accepts r ''text/event-stream'') \<longrightarrow>
     gate gp w r = (Reject NotAcceptable, w) \<and>
     status_code NotAcceptable = Some 406 \<and>
     str_includes (reason_text NotAcceptable) ''Not Acceptable'' \<and>
     sessions (snd (gate gp w r)) = sessions w \<and>
     issued (snd (gate gp w r)) = issued w"
  by (simp add: gate_def content_negotiated_def includes_self)

text \<open>An \<^verbatim>\<open>initialize\<close> call without an \<^verbatim>\<open>Accept\<close> header, and one that accepts
  JSON only.\<close>

theorem gate_not_acceptable_witness:
  "gate example_params fresh_state (initialize_request\<lparr>accept := None\<rparr>) =
     (Reject NotAcceptable, fresh_state) \<and>
   gate example_params fresh_state (initialize_request\<lparr>accept := Some ''application/json''\<rparr>) =
     (Reject NotAcceptable, fresh_state)"
proof -
  have a: "\<not> accepts (initialize_request\<lparr>accept := None\<rparr>) ''application/json''"
    by (simp add: accepts_def)
  have b: "\<not> accepts (initialize_request\<lparr>accept := Some ''application/json''\<rparr>) ''text/event-stream''"
    by (simp add: accepts_def)
  have p: "http_method (initialize_request\<lparr>accept := x\<rparr>) = POST" for x
    by (simp add: initialize_request_def)
  show ?thesis
    using gate_not_acceptable[of "initialize_request\<lparr>accept := None\<rparr>" example_params fresh_state]
      gate_not_acceptable[of "initialize_request\<lparr>accept := Some ''application/json''\<rparr>"
        example_params fresh_state] a b p
    by simp
qed

text \<open>
  Claim C1, as amended.  On a stateful server after an initialization, a POST that passes
  content negotiation (both media types accepted, structured content type) and carries a
  message other than \<^verbatim>\<open>initialize\<close> is rejected with \<open>Mcp-Session-Id header is
  required\<close> when it has no session header, and with the distinct \<open>Session not found\<close>
  when its header names no open session; in neither case is the message forwarded to the
  protocol router.
\<close>

theorem gate_session_required:
  assumes "http_method r = POST" and "content_negotiated r" and "structured_content r"
    and "rpc_method r \<noteq> ''initialize''" and "mode w = Stateful" and "initialized w"
  shows "(session_header r = None \<longrightarrow>
            gate gp w r = (Reject SessionIdRequired, w) \<and>
            str_includes (reason_text SessionIdRequired) ''Mcp-Session-Id header is required'') \<and>
         (session_header r = Some sid \<and> lookup w sid = None \<longrightarrow>
            gate gp w r = (Reject SessionNotFound, w) \<and>
            SessionNotFound \<noteq> SessionIdRequired \<and>
            reason_text SessionNotFound \<noteq> reason_text SessionIdRequired) \<and>
         (session_header r = None \<or> (session_header r = Some sid \<and> lookup w sid = None) \<longrightarrow>
            (\<forall>attached. fst (gate gp w r) \<noteq> Forward attached))"
  using assms
  by (auto simp: gate_def validate_session_def includes_self)

text \<open>
  Claim C1 as stated fails twice.  After an initialization, a \<^verbatim>\<open>tools/list\<close> POST with
  neither a session header nor an \<^verbatim>\<open>Accept\<close> header is rejected as Not Acceptable,
  whose text does not mention the session header.  And on a stateless server the same
  call, with its \<^verbatim>\<open>Accept\<close> header, is forwarded to the router though it has no session
  header.
\<close>

theorem gate_session_required_counterexample:
  "gate example_params fresh_state initialize_request =
     (Forward (Some ''session-0''), initialized_state) \<and>
   gate example_params initialized_state (tools_list_request\<lparr>accept := None\<rparr>) =
     (Reject NotAcceptable, initialized_state) \<and>
   \<not> str_includes (reason_text NotAcceptable) ''Mcp-Session-Id header is required'' \<and>
   gate example_params (fresh_state\<lparr>mode := Stateless\<rparr>) initialize_request =
     (Forward None, fresh_state\<lparr>mode := Stateless, initialized := True\<rparr>) \<and>
   gate example_params (fresh_state\<lparr>mode := Stateless, initialized := True\<rparr>) tools_list_request =
     (Forward None, fresh_state\<lparr>mode := Stateless, initialized := True\<rparr>)"
proof -
  have j: "str_includes ''application/json, text/event-stream'' ''application/json''"
    "str_includes ''application/json, text/event-stream'' ''text/event-stream''"
    "str_includes ''application/json'' ''application/json''"
    by simp_all
  have n: "content_negotiated initialize_request" "structured_content initialize_request"
    "content_negotiated tools_list_request" "structured_content tools_list_request"
    using j by (simp_all add: content_negotiated_def structured_content_def accepts_def
        initialize_request_def tools_list_request_def)
  have 1: "gate example_params fresh_state initialize_request =
     (Forward (Some ''session-0''), initialized_state)"
    using n by (simp add: gate_def createSession_def initialize_request_def example_params_def
        fresh_state_def initialized_state_def digit_char_def Let_def)
  have 2: "gate example_params initialized_state (tools_list_request\<lparr>accept := None\<rparr>) =
     (Reject NotAcceptable, initialized_state)"
    by (simp add: gate_def content_negotiated_def accepts_def tools_list_request_def)
  have 3: "\<not> str_includes (reason_text NotAcceptable) ''Mcp-Session-Id header is required''"
    by simp
  have 4: "gate example_params (fresh_state\<lparr>mode := Stateless\<rparr>) initialize_request =
     (Forward None, fresh_state\<lparr>mode := Stateless, initialized := True\<rparr>)"
    using n by (simp add: gate_def initialize_request_def)
  have 5: "gate example_params (fresh_state\<lparr>mode := Stateless, initialized := True\<rparr>) tools_list_request =
     (Forward None, fresh_state\<lparr>mode := Stateless, initialized := True\<rparr>)"
    using n by (simp add: gate_def validate_session_def validate_version_def tools_list_request_def)
  show ?thesis using 1 2 3 4 5 by simp
qed

text \<open>The \<^verbatim>\<open>tools/list\<close> call of the test suite after the initialization: without a
  session header, and with an identifier that was never issued.\<close>

theorem gate_session_required_witness:
  "gate example_params initialized_state tools_list_request =
     (Reject SessionIdRequired, initialized_state) \<and>
   gate example_params initialized_state (tools_list_request\<lparr>session_header := Some ''session-9''\<rparr>) =
     (Reject SessionNotFound, initialized_state)"
proof -
  let ?r = "tools_list_request\<lparr>session_header := Some ''session-9''\<rparr>"
  have j: "str_includes ''application/json, text/event-stream'' ''application/json''"
    "str_includes ''application/json, text/event-stream'' ''text/event-stream''"
    "str_includes ''application/json'' ''application/json''"
    by simp_all
  have n: "content_negotiated tools_list_request" "structured_content tools_list_request"
    "content_negotiated ?r" "structured_content ?r"
    using j by (simp_all add: content_negotiated_def structured_content_def accepts_def
        tools_list_request_def)
  have m: "http_method tools_list_request = POST" "http_method ?r = POST"
    "rpc_method tools_list_request \<noteq> ''initialize''" "rpc_method ?r \<noteq> ''initialize''"
    "session_header tools_list_request = None" "session_header ?r = Some ''session-9''"
    by (simp_all add: tools_list_request_def)
  have s: "mode initialized_state = Stateful" "initialized initialized_state"
    "lookup initialized_state ''session-9'' = None"
    by (simp_all add: initialized_state_def fresh_state_def lookup_def)
  have 1: "gate example_params initialized_state tools_list_request =
     (Reject SessionIdRequired, initialized_state)"
    using gate_session_required[OF m(1) n(1) n(2) m(3) s(1) s(2), where sid = "[]" and gp = example_params] m(5)
    by simp
  have 2: "gate example_params initialized_state ?r = (Reject SessionNotFound, initialized_state)"
    using gate_session_required[OF m(2) n(3) n(4) m(4) s(1) s(2), where sid = "''session-9''" and gp = example_params]
      m(6) s(3)
    by simp
  show ?thesis using 1 2 by simp
qed

end
